theory Spec2Isabelle
  imports Main "HOL-Library.Word"
begin

section \<open>The companion supervisor of idb (idb/common/companion.py)\<close>

text \<open>
  The module launches the companion executable as a child process, waits for it under a
  timeout, reads its line-oriented output and always tears the child down again. The
  embedding below keeps the names of the Python source. Effects are explicit: the child
  is a value that carries its observable state (\<open>returncode\<close>), a script of how the
  operating system and the companion answer each wait, and the list of everything the
  supervisor did to it (signals and log records, in order).
\<close>

subsection \<open>Python values: bytes, text, JSON\<close>

text \<open>
  \<open>bytes\<close> is a list of octets. A Python \<open>str\<close> is a list of Unicode code points,
  so that \<open>str.splitlines\<close> and \<open>str.strip\<close> see the characters Python sees.
  \<open>ascii\<close> writes a source literal such as \<open>"--list"\<close>.
\<close>

type_synonym bytes = "8 word list"
type_synonym pystr = "nat list"

definition ascii :: "string \<Rightarrow> pystr" where
  "ascii s = map of_char s"

definition ascii_bytes :: "string \<Rightarrow> bytes" where
  "ascii_bytes s = map of_char s"

text \<open>
  \<open>bytes.decode()\<close> with its defaults (UTF-8, strict): shortest-form sequences only, no
  surrogates, nothing above U+10FFFF. \<open>None\<close> is the \<open>UnicodeDecodeError\<close>.
\<close>

definition is_cont :: "8 word \<Rightarrow> bool" where
  "is_cont b = (0x80 \<le> b \<and> b \<le> 0xBF)"

definition cont_bits :: "8 word \<Rightarrow> nat" where
  "cont_bits b = unat b - 0x80"

fun utf8_decode :: "bytes \<Rightarrow> pystr option" where
  "utf8_decode [] = Some []"
| "utf8_decode (b # bs) =
     (if b < 0x80 then map_option ((#) (unat b)) (utf8_decode bs)
      else if 0xC2 \<le> b \<and> b \<le> 0xDF then
        (case bs of
           c1 # r \<Rightarrow>
             if is_cont c1
             then map_option ((#) ((unat b - 0xC0) * 64 + cont_bits c1)) (utf8_decode r)
             else None
         | _ \<Rightarrow> None)
      else if 0xE0 \<le> b \<and> b \<le> 0xEF then
        (case bs of
           c1 # c2 # r \<Rightarrow>
             if (if b = 0xE0 then 0xA0 else 0x80) \<le> c1
                \<and> c1 \<le> (if b = 0xED then 0x9F else 0xBF) \<and> is_cont c2
             then map_option
                    ((#) ((unat b - 0xE0) * 4096 + cont_bits c1 * 64 + cont_bits c2))
                    (utf8_decode r)
             else None
         | _ \<Rightarrow> None)
      else if 0xF0 \<le> b \<and> b \<le> 0xF4 then
        (case bs of
           c1 # c2 # c3 # r \<Rightarrow>
             if (if b = 0xF0 then 0x90 else 0x80) \<le> c1
                \<and> c1 \<le> (if b = 0xF4 then 0x8F else 0xBF) \<and> is_cont c2 \<and> is_cont c3
             then map_option
                    ((#) ((unat b - 0xF0) * 262144 + cont_bits c1 * 4096
                          + cont_bits c2 * 64 + cont_bits c3))
                    (utf8_decode r)
             else None
         | _ \<Rightarrow> None)
      else None)"

text \<open>
  \<open>str.splitlines()\<close>: the line boundaries of CPython (\<open>\n\<close>, \<open>\v\<close>, \<open>\f\<close>, \<open>\r\<close>,
  \<open>\x1c\<close>, \<open>\x1d\<close>, \<open>\x1e\<close>, \<open>\x85\<close>, U+2028, U+2029), \<open>\r\n\<close> counted once, the
  terminators dropped, and no empty last line after a final terminator. The flag of
  \<open>splitlines_from\<close> says that the character before was \<open>\r\<close>.
\<close>

definition is_linebreak :: "nat \<Rightarrow> bool" where
  "is_linebreak c = (c \<in> {0x0A, 0x0B, 0x0C, 0x0D, 0x1C, 0x1D, 0x1E, 0x85, 0x2028, 0x2029})"

fun splitlines_from :: "bool \<Rightarrow> pystr \<Rightarrow> pystr list" where
  "splitlines_from after_cr [] = []"
| "splitlines_from after_cr (c # cs) =
     (if after_cr \<and> c = 0x0A then splitlines_from False cs
      else if is_linebreak c then [] # splitlines_from (c = 0x0D) cs
      else (case splitlines_from False cs of
              [] \<Rightarrow> [[c]]
            | l # ls \<Rightarrow> (c # l) # ls))"

definition splitlines :: "pystr \<Rightarrow> pystr list" where
  "splitlines s = splitlines_from False s"

text \<open>\<open>str.strip()\<close> removes the characters for which \<open>str.isspace\<close> holds, at both ends.\<close>

definition is_space :: "nat \<Rightarrow> bool" where
  "is_space c =
     ((0x09 \<le> c \<and> c \<le> 0x0D) \<or> (0x1C \<le> c \<and> c \<le> 0x20) \<or> c = 0x85 \<or> c = 0xA0
      \<or> c = 0x1680 \<or> (0x2000 \<le> c \<and> c \<le> 0x200A) \<or> c = 0x2028 \<or> c = 0x2029
      \<or> c = 0x202F \<or> c = 0x205F \<or> c = 0x3000)"

definition strip :: "pystr \<Rightarrow> pystr" where
  "strip s = rev (dropWhile is_space (rev (dropWhile is_space s)))"

text \<open>\<open>sep.join(xs)\<close>.\<close>

fun join :: "pystr \<Rightarrow> pystr list \<Rightarrow> pystr" where
  "join sep [] = []"
| "join sep [x] = x"
| "join sep (x # y # ys) = x @ sep @ join sep (y # ys)"

text \<open>
  What \<open>json.loads\<close> returns. A \<open>dict\<close> is kept as an association list and read with
  \<open>map_of\<close>; Python's \<open>None\<close> and JSON's \<open>null\<close> are the same value, \<open>JNull\<close>.
\<close>

datatype json =
    JNull
  | JBool bool
  | JInt int
  | JFloat pystr
  | JStr pystr
  | JList "json list"
  | JDict "(pystr \<times> json) list"

subsection \<open>Targets and filters (idb/common/types.py)\<close>

text \<open>
  Modelled from the spec: the declarations of \<open>TargetType\<close>, \<open>ECIDFilter\<close> and
  \<open>TargetDescription\<close> are in idb/common/types.py, which is not part of the sources at
  hand. The spec gives \<open>TargetDescription\<close> the fields below; companion.py reads only
  \<open>udid\<close>.
\<close>

datatype TargetType = SIMULATOR | DEVICE

datatype OnlyFilter = OnlyTargetType TargetType | ECIDFilter (ecid: pystr)

record TargetDescription =
  udid :: pystr
  name :: pystr
  state :: pystr
  target_type :: TargetType
  os_version :: pystr
  architecture :: pystr

subsection \<open>Exceptions\<close>

text \<open>
  Every \<open>raise\<close> of the module is an \<open>IdbException\<close> or an \<open>IdbJsonException\<close>. The
  message of an \<open>IdbException\<close> is an f-string; it is kept as its template together
  with the values interpolated into it. The other constructors are the exceptions of the
  Python runtime that can cross the module: \<open>asyncio.TimeoutError\<close> from
  \<open>asyncio.wait_for\<close>, \<open>asyncio.CancelledError\<close> at an \<open>await\<close> of a cancelled task,
  \<open>UnicodeDecodeError\<close> from \<open>bytes.decode\<close>, \<open>IndexError\<close> from \<open>[-1]\<close> on an empty
  list, \<open>AttributeError\<close> from \<open>.get\<close> on a value that is no \<open>dict\<close>,
  \<open>json.JSONDecodeError\<close> and \<open>RecursionError\<close> from \<open>json.loads\<close>, and
  \<open>OtherError\<close> for whatever else a collaborator outside this module raises.
\<close>

datatype idb_message =
    CompanionPathNotProvided
  | NonMacOSPlatform
  | FailedToRun "pystr list"
  | TimedOutOnCommand int pystr
  | MoreThanOneDeviceInfo "TargetDescription list"
  | NoDeviceInfoFound "TargetDescription list"
  | NoGrpcPathIn bytes

datatype exn =
    IdbException idb_message
  | IdbJsonException pystr
  | AsyncioTimeoutError
  | CancelledError
  | UnicodeDecodeError
  | IndexError
  | AttributeError
  | JSONDecodeError
  | RecursionError
  | OtherError pystr

subsection \<open>The child process and what is done to it\<close>

text \<open>
  An awaited operation either finishes after some seconds with a value, or never
  finishes by itself, or the awaiting task is cancelled after some seconds.
  \<open>asyncio.wait_for(op, timeout)\<close> returns the value when the operation finishes before
  the timeout, raises \<open>asyncio.CancelledError\<close> when the cancellation comes before the
  timeout, and raises \<open>asyncio.TimeoutError\<close> otherwise; with a timeout of zero or less
  an operation that still has to wait times out at once. A plain \<open>await\<close> has no bound:
  \<open>None\<close> says that it never returns.
\<close>

datatype 'a waited = Finishes nat 'a | Hangs | Cancels nat

definition wait_for :: "'a waited \<Rightarrow> int \<Rightarrow> exn + 'a" where
  "wait_for w timeout =
     (case w of
        Finishes d v \<Rightarrow> if int d < timeout then Inr v else Inl AsyncioTimeoutError
      | Hangs \<Rightarrow> Inl AsyncioTimeoutError
      | Cancels d \<Rightarrow> if int d < timeout then Inl CancelledError else Inl AsyncioTimeoutError)"


text \<open>
  The loggers: the one given to \<open>Companion\<close>, and
  \<open>self._logger.getChild(f"{process.pid}:{' '.join(arguments)}")\<close>. The log records are
  the f-strings of the module, kept as template and values.
\<close>

datatype Logger = GetLogger pystr | GetChild Logger nat pystr

datatype log_record =
    Launched_process
  | Process_has_exited_with int
  | Stopping_process_with_SIGTERM_waiting int
  | Process_has_exited_after_SIGTERM_with int
  | Process_hasnt_exited_SIGKILLing int
  | Ran_successfully "pystr list"
  | Started_domain_sock_server_on json

datatype event = Log Logger log_record | SIGTERM | SIGKILL

text \<open>
  \<open>child\<close> is what the operating system and the companion decide: the process id, what
  \<open>process.communicate()\<close> gives (all of stdout and the exit code, once the child has
  exited), what the first \<open>process.stdout.readline()\<close> gives, the return code that the
  event loop has recorded by the time that first read ends (\<open>None\<close> when the child is
  still running then), and what \<open>process.wait()\<close> gives after SIGTERM has been sent.
  \<open>Process\<close> is the \<open>asyncio.subprocess.Process\<close>:
  the child, its \<open>returncode\<close> as far as the event loop has seen it, and the record of
  the signals sent to it and of the log lines written about it, oldest first.
\<close>

record child =
  pid :: nat
  on_communicate :: "(bytes \<times> int) waited"
  on_readline :: "bytes waited"
  exited_at_handshake :: "int option"
  on_wait :: "int waited"

record Process =
  child :: child
  returncode :: "int option"
  events :: "event list"

definition info :: "Logger \<Rightarrow> log_record \<Rightarrow> Process \<Rightarrow> Process" where
  "info lg r p = p\<lparr>events := events p @ [Log lg r]\<rparr>"

definition terminate :: "Process \<Rightarrow> Process" where
  "terminate p = p\<lparr>events := events p @ [SIGTERM]\<rparr>"

definition kill :: "Process \<Rightarrow> Process" where
  "kill p = p\<lparr>events := events p @ [SIGKILL]\<rparr>"

subsection \<open>The Python runtime and the collaborators outside the module\<close>

text \<open>
  \<open>json_loads\<close> is \<open>json.loads\<close>: it gives a value or raises, \<open>json.JSONDecodeError\<close>
  on a text that is no JSON, and other exceptions as well (\<open>RecursionError\<close> on a text
  nested too deep).
  \<open>target_description_from_json\<close> is the function of that name in idb/common/format.py,
  which is not part of the sources at hand: it is a parameter, and may raise.
  \<open>create_subprocess_exec\<close> is \<open>asyncio.create_subprocess_exec\<close>: given the command
  line it raises or gives the child. \<open>platform\<close> is \<open>sys.platform\<close>.
  \<open>timeout_error_is_builtin\<close> says whether \<open>asyncio.TimeoutError\<close> is the builtin
  \<open>TimeoutError\<close>: it is from Python 3.11 on; before, the two are unrelated classes, and
  \<open>except TimeoutError\<close> does not catch what \<open>asyncio.wait_for\<close> raises.
\<close>

record runtime =
  platform :: pystr
  timeout_error_is_builtin :: bool
  json_loads :: "pystr \<Rightarrow> exn + json"
  target_description_from_json :: "pystr \<Rightarrow> exn + TargetDescription"
  create_subprocess_exec :: "pystr list \<Rightarrow> exn + child"

subsection \<open>Parsing one line\<close>

text \<open>
  \<^verbatim>\<open>
  def parse_json_line(line: bytes) -> Dict[str, Union[int, str]]:
      decoded_line = line.decode()
      try:
          return json.loads(decoded_line)
      except json.JSONDecodeError:
          raise IdbJsonException(f"Failed to parse json from: {decoded_line}")
  \<close>
  The decoding stands before the \<open>try\<close>, and the handler names one class: every other
  exception of \<open>json.loads\<close> passes.
\<close>

definition parse_json_line :: "runtime \<Rightarrow> bytes \<Rightarrow> exn + json" where
  "parse_json_line rt line =
     (case utf8_decode line of
        None \<Rightarrow> Inl UnicodeDecodeError
      | Some decoded_line \<Rightarrow>
          (case json_loads rt decoded_line of
             Inr v \<Rightarrow> Inr v
           | Inl e \<Rightarrow>
               if e = JSONDecodeError then Inl (IdbJsonException decoded_line) else Inl e))"

subsection \<open>Tearing a process down\<close>

text \<open>
  \<^verbatim>\<open>
  async def _terminate_process(process, timeout, logger) -> None:
      returncode = process.returncode
      if returncode is not None:
          logger.info(f"Process has exited with {returncode}")
          return
      logger.info(f"Stopping process with SIGTERM, waiting {timeout} seconds")
      process.terminate()
      try:
          returncode = await asyncio.wait_for(process.wait(), timeout=timeout)
          logger.info(f"Process has exited after SIGTERM with {returncode}")
      except TimeoutError:
          logger.info(f"Process hasn't exited after {timeout} seconds, SIGKILL'ing...")
          process.kill()
  \<close>
  The handler names the builtin \<open>TimeoutError\<close>; \<open>asyncio.wait_for\<close> raises
  \<open>asyncio.TimeoutError\<close>. Whether the handler runs is the runtime's
  \<open>timeout_error_is_builtin\<close>; when it does not run, the exception leaves the function.
\<close>

definition terminate_process ::
  "runtime \<Rightarrow> Process \<Rightarrow> int \<Rightarrow> Logger \<Rightarrow> (exn + unit) \<times> Process" where
  "terminate_process rt process timeout logger =
     (case returncode process of
        Some rc \<Rightarrow> (Inr (), info logger (Process_has_exited_with rc) process)
      | None \<Rightarrow>
          (let p1 = info logger (Stopping_process_with_SIGTERM_waiting timeout) process;
               p2 = terminate p1
           in case wait_for (on_wait (child p2)) timeout of
                Inr rc \<Rightarrow>
                  (Inr (),
                   info logger (Process_has_exited_after_SIGTERM_with rc)
                     (p2\<lparr>returncode := Some rc\<rparr>))
              | Inl e \<Rightarrow>
                  if e = AsyncioTimeoutError \<and> timeout_error_is_builtin rt
                  then (Inr (), kill (info logger (Process_hasnt_exited_SIGKILLing timeout) p2))
                  else (Inl e, p2)))"

subsection \<open>The companion\<close>

definition DEFAULT_COMPANION_COMMAND_TIMEOUT :: int where
  "DEFAULT_COMPANION_COMMAND_TIMEOUT = 120"

definition DEFAULT_COMPANION_TEARDOWN_TIMEOUT :: int where
  "DEFAULT_COMPANION_TEARDOWN_TIMEOUT = 30"

definition only_arg_from_filter :: "OnlyFilter option \<Rightarrow> pystr list" where
  "only_arg_from_filter only =
     (case only of
        Some (OnlyTargetType t) \<Rightarrow>
          [ascii ''--only'', if t = SIMULATOR then ascii ''simulator'' else ascii ''device'']
      | Some (ECIDFilter e) \<Rightarrow> [ascii ''--only'', ascii ''ecid:'' @ e]
      | None \<Rightarrow> [])"

record Companion =
  companion_path :: "pystr option"
  device_set_path :: "pystr option"
  logger :: Logger
  companion_command_timeout :: int
  companion_teardown_timeout :: int

text \<open>
  \<open>Companion.__init__\<close>; \<open>None\<close> for a timeout is the argument left out, which takes
  the default of the signature.
\<close>

definition Companion_init ::
  "pystr option \<Rightarrow> pystr option \<Rightarrow> Logger \<Rightarrow> int option \<Rightarrow> int option \<Rightarrow> Companion" where
  "Companion_init path set_path lg command_timeout teardown_timeout =
     \<lparr>companion_path = path,
      device_set_path = set_path,
      logger = lg,
      companion_command_timeout =
        (case command_timeout of None \<Rightarrow> DEFAULT_COMPANION_COMMAND_TIMEOUT | Some t \<Rightarrow> t),
      companion_teardown_timeout =
        (case teardown_timeout of None \<Rightarrow> DEFAULT_COMPANION_TEARDOWN_TIMEOUT | Some t \<Rightarrow> t)\<rparr>"

text \<open>
  What a caller sees of an operation: the value or the exception, and the process that was
  launched for it, if one was (\<open>None\<close>: no child was ever spawned).
\<close>

type_synonym 'a outcome = "(exn + 'a) \<times> Process option"

text \<open>
  \<^verbatim>\<open>
  @asynccontextmanager
  async def _start_companion_command(self, arguments):
      companion_path = self._companion_path
      if companion_path is None:
          if platform == "darwin":
              raise IdbException("Companion path not provided")
          else:
              raise IdbException(
                  "Companion interactions do not work on non-macOS platforms")
      cmd: List[str] = [companion_path]
      device_set_path = self._device_set_path
      if device_set_path is not None:
          cmd.extend(["--device-set-path", device_set_path])
      cmd.extend(arguments)
      process = await asyncio.create_subprocess_exec(
          *cmd, stdout=subprocess.PIPE, stderr=None)
      logger = self._logger.getChild(f"{process.pid}:{' '.join(arguments)}")
      logger.info("Launched process")
      try:
          yield process
      finally:
          await _terminate_process(
              process=process, timeout=self._companion_teardown_timeout, logger=logger)
  \<close>
\<close>

text \<open>
  Modelled from the spec: the decorator is idb.utils.contextlib.asynccontextmanager, which is
  not part of the sources at hand; the spec makes it a scoped acquisition, as
  contextlib's is. The block under \<open>async with\<close> is the argument \<open>body\<close>: it gets the
  process and ends with a value or an exception (a cancellation is the exception
  \<open>CancelledError\<close>), or never ends (\<open>None\<close>). Whatever it ends with, the \<open>finally\<close>
  clause runs; an exception raised there replaces the body's result.
\<close>

definition start_companion_command ::
  "runtime \<Rightarrow> Companion \<Rightarrow> pystr list
     \<Rightarrow> (Process \<Rightarrow> ((exn + 'a) \<times> Process) option) \<Rightarrow> 'a outcome option" where
  "start_companion_command rt self arguments body =
     (case companion_path self of
        None \<Rightarrow>
          if platform rt = ascii ''darwin''
          then Some (Inl (IdbException CompanionPathNotProvided), None)
          else Some (Inl (IdbException NonMacOSPlatform), None)
      | Some path \<Rightarrow>
          (let cmd = [path]
                 @ (case device_set_path self of
                      None \<Rightarrow> []
                    | Some d \<Rightarrow> [ascii ''--device-set-path'', d])
                 @ arguments
           in case create_subprocess_exec rt cmd of
                Inl e \<Rightarrow> Some (Inl e, None)
              | Inr c \<Rightarrow>
                  (let lg = GetChild (logger self) (pid c) (join (ascii '' '') arguments);
                       process = info lg Launched_process
                                   \<lparr>child = c, returncode = None, events = []\<rparr>
                   in case body process of
                        None \<Rightarrow> None
                      | Some (r, p1) \<Rightarrow>
                          (case terminate_process rt p1 (companion_teardown_timeout self) lg of
                             (Inl e, p2) \<Rightarrow> Some (Inl e, Some p2)
                           | (Inr u, p2) \<Rightarrow> Some (r, Some p2)))))"

text \<open>
  \<^verbatim>\<open>
  async def _run_companion_command(self, arguments, timeout: Optional[int]) -> str:
      timeout = timeout or self._companion_command_timeout
      async with self._start_companion_command(arguments=arguments) as process:
          try:
              (output, _) = await asyncio.wait_for(
                  process.communicate(), timeout=timeout)
              if process.returncode != 0:
                  raise IdbException(f"Failed to run {arguments}")
              self._logger.info(f"Ran {arguments} successfully.")
              return output.decode()
          except asyncio.TimeoutError:
              raise IdbException(
                  f"Timed out after {timeout} secs on command {' '.join(arguments)}")
  \<close>
  \<open>x or y\<close> is \<open>y\<close> when \<open>x\<close> is \<open>None\<close> and when \<open>x\<close> is \<open>0\<close>.
\<close>

definition timeout_or :: "int option \<Rightarrow> int \<Rightarrow> int" where
  "timeout_or timeout dflt =
     (case timeout of None \<Rightarrow> dflt | Some t \<Rightarrow> if t = 0 then dflt else t)"

definition run_companion_command ::
  "runtime \<Rightarrow> Companion \<Rightarrow> pystr list \<Rightarrow> int option \<Rightarrow> pystr outcome option" where
  "run_companion_command rt self arguments timeout =
     (let timeout = timeout_or timeout (companion_command_timeout self)
      in start_companion_command rt self arguments
           (\<lambda>process.
              case wait_for (on_communicate (child process)) timeout of
                Inr (output, rc) \<Rightarrow>
                  (let p = process\<lparr>returncode := Some rc\<rparr>
                   in if rc \<noteq> 0 then Some (Inl (IdbException (FailedToRun arguments)), p)
                      else (let p' = info (logger self) (Ran_successfully arguments) p
                            in case utf8_decode output of
                                 None \<Rightarrow> Some (Inl UnicodeDecodeError, p')
                               | Some text \<Rightarrow> Some (Inr text, p')))
              | Inl e \<Rightarrow>
                  if e = AsyncioTimeoutError
                  then Some (Inl (IdbException
                                    (TimedOutOnCommand timeout (join (ascii '' '') arguments))),
                             process)
                  else Some (Inl e, process)))"

subsection \<open>Operations on targets\<close>

text \<open>
  \<^verbatim>\<open>
  async def _run_udid_command(self, udid, command, timeout) -> str:
      return await self._run_companion_command(
          arguments=[f"--{command}", udid], timeout=timeout)

  async def boot(self, udid, timeout=None) -> None:
      await self._run_udid_command(udid=udid, command="boot", timeout=timeout)
  \<close>
  and likewise \<open>shutdown\<close>, \<open>erase\<close> and \<open>delete\<close>, which runs on \<open>"all"\<close> when no
  udid is given. They return \<open>None\<close>: \<open>discard\<close> drops the output. A parameter that
  shares its name with a field of \<open>TargetDescription\<close> is primed.
\<close>

definition run_udid_command ::
  "runtime \<Rightarrow> Companion \<Rightarrow> pystr \<Rightarrow> pystr \<Rightarrow> int option \<Rightarrow> pystr outcome option" where
  "run_udid_command rt self udid' command timeout =
     run_companion_command rt self [ascii ''--'' @ command, udid'] timeout"

definition discard :: "'a outcome option \<Rightarrow> unit outcome option" where
  "discard res =
     (case res of
        None \<Rightarrow> None
      | Some (Inl e, w) \<Rightarrow> Some (Inl e, w)
      | Some (Inr v, w) \<Rightarrow> Some (Inr (), w))"

definition boot :: "runtime \<Rightarrow> Companion \<Rightarrow> pystr \<Rightarrow> int option \<Rightarrow> unit outcome option" where
  "boot rt self udid' timeout = discard (run_udid_command rt self udid' (ascii ''boot'') timeout)"

definition shutdown :: "runtime \<Rightarrow> Companion \<Rightarrow> pystr \<Rightarrow> int option \<Rightarrow> unit outcome option" where
  "shutdown rt self udid' timeout =
     discard (run_udid_command rt self udid' (ascii ''shutdown'') timeout)"

definition erase :: "runtime \<Rightarrow> Companion \<Rightarrow> pystr \<Rightarrow> int option \<Rightarrow> unit outcome option" where
  "erase rt self udid' timeout = discard (run_udid_command rt self udid' (ascii ''erase'') timeout)"

definition delete ::
  "runtime \<Rightarrow> Companion \<Rightarrow> pystr option \<Rightarrow> int option \<Rightarrow> unit outcome option" where
  "delete rt self udid' timeout =
     discard (run_udid_command rt self
                (case udid' of None \<Rightarrow> ascii ''all'' | Some u \<Rightarrow> u) (ascii ''delete'') timeout)"

text \<open>
  \<^verbatim>\<open>
  async def create(self, device_type, os_version, timeout=None) -> TargetDescription:
      output = await self._run_companion_command(
          arguments=["--create", f"{device_type},{os_version}"], timeout=timeout)
      return target_description_from_json(output.splitlines()[-1])
  \<close>
  \<open>xs[-1]\<close> raises \<open>IndexError\<close> on the empty list. The decorator \<open>log_call\<close> (of
  idb/common/logging.py, not part of the sources at hand) only logs the call and is left out.
\<close>

definition create ::
  "runtime \<Rightarrow> Companion \<Rightarrow> pystr \<Rightarrow> pystr \<Rightarrow> int option
     \<Rightarrow> TargetDescription outcome option" where
  "create rt self device_type os_version' timeout =
     (case run_companion_command rt self
             [ascii ''--create'', device_type @ ascii '','' @ os_version'] timeout of
        None \<Rightarrow> None
      | Some (Inl e, w) \<Rightarrow> Some (Inl e, w)
      | Some (Inr output, w) \<Rightarrow>
          (case splitlines output of
             [] \<Rightarrow> Some (Inl IndexError, w)
           | l # ls \<Rightarrow> Some (target_description_from_json rt (last (l # ls)), w)))"

text \<open>
  \<^verbatim>\<open>
  async def clone(self, udid, destination_device_set=None, timeout=None):
      arguments = ["--clone", udid]
      if destination_device_set is not None:
          arguments.extend(["--clone-destination-set", destination_device_set])
      output = await self._run_companion_command(arguments=arguments, timeout=timeout)
      return target_description_from_json(output.splitlines()[-1])
  \<close>
\<close>

definition clone ::
  "runtime \<Rightarrow> Companion \<Rightarrow> pystr \<Rightarrow> pystr option \<Rightarrow> int option
     \<Rightarrow> TargetDescription outcome option" where
  "clone rt self udid' destination_device_set timeout =
     (let arguments = [ascii ''--clone'', udid']
            @ (case destination_device_set of
                 None \<Rightarrow> []
               | Some d \<Rightarrow> [ascii ''--clone-destination-set'', d])
      in case run_companion_command rt self arguments timeout of
           None \<Rightarrow> None
         | Some (Inl e, w) \<Rightarrow> Some (Inl e, w)
         | Some (Inr output, w) \<Rightarrow>
             (case splitlines output of
                [] \<Rightarrow> Some (Inl IndexError, w)
              | l # ls \<Rightarrow> Some (target_description_from_json rt (last (l # ls)), w)))"

text \<open>
  \<^verbatim>\<open>
  async def list_targets(self, only=None, timeout=None) -> List[TargetDescription]:
      arguments = ["--list", "1"] + _only_arg_from_filter(only=only)
      output = await self._run_companion_command(arguments=arguments, timeout=timeout)
      return [
          target_description_from_json(data=line.strip())
          for line in output.splitlines()
          if len(line.strip())
      ]
  \<close>
  \<open>targets_of_lines\<close> is the list comprehension: the lines in order, the first exception
  ends it.
\<close>

fun targets_of_lines :: "runtime \<Rightarrow> pystr list \<Rightarrow> exn + TargetDescription list" where
  "targets_of_lines rt [] = Inr []"
| "targets_of_lines rt (line # lines) =
     (if length (strip line) \<noteq> 0
      then (case target_description_from_json rt (strip line) of
              Inl e \<Rightarrow> Inl e
            | Inr t \<Rightarrow>
                (case targets_of_lines rt lines of
                   Inl e \<Rightarrow> Inl e
                 | Inr ts \<Rightarrow> Inr (t # ts)))
      else targets_of_lines rt lines)"

definition list_targets ::
  "runtime \<Rightarrow> Companion \<Rightarrow> OnlyFilter option \<Rightarrow> int option
     \<Rightarrow> TargetDescription list outcome option" where
  "list_targets rt self only timeout =
     (let arguments = [ascii ''--list'', ascii ''1''] @ only_arg_from_filter only
      in case run_companion_command rt self arguments timeout of
           None \<Rightarrow> None
         | Some (Inl e, w) \<Rightarrow> Some (Inl e, w)
         | Some (Inr output, w) \<Rightarrow> Some (targets_of_lines rt (splitlines output), w))"

text \<open>
  \<^verbatim>\<open>
  async def target_description(self, udid=None, only=None, timeout=None):
      all_details = await self.list_targets(only=only, timeout=timeout)
      details = all_details
      if udid is not None:
          details = [target for target in all_details if target.udid == udid]
      if len(details) > 1:
          raise IdbException(f"More than one device info found {details}")
      if len(details) == 0:
          raise IdbException(f"No device info found, got {all_details}")
      return details[0]
  \<close>
\<close>

definition target_description ::
  "runtime \<Rightarrow> Companion \<Rightarrow> pystr option \<Rightarrow> OnlyFilter option \<Rightarrow> int option
     \<Rightarrow> TargetDescription outcome option" where
  "target_description rt self udid' only timeout =
     (case list_targets rt self only timeout of
        None \<Rightarrow> None
      | Some (Inl e, w) \<Rightarrow> Some (Inl e, w)
      | Some (Inr all_details, w) \<Rightarrow>
          (let details =
                 (case udid' of
                    None \<Rightarrow> all_details
                  | Some u \<Rightarrow> filter (\<lambda>target. TargetDescription.udid target = u) all_details)
           in if length details > 1
              then Some (Inl (IdbException (MoreThanOneDeviceInfo details)), w)
              else if length details = 0
              then Some (Inl (IdbException (NoDeviceInfoFound all_details)), w)
              else Some (Inr (details ! 0), w)))"

subsection \<open>The domain-socket server\<close>



subsection \<open>Observing a run\<close>

text \<open>
  The last line of a text that is not blank, as \<open>list_targets\<close> tells blank lines
  (\<open>len(line.strip())\<close> is zero); \<open>None\<close> when there is none.
\<close>

definition last_nonempty_line :: "pystr \<Rightarrow> pystr option" where
  "last_nonempty_line output =
     (case filter (\<lambda>line. length (strip line) \<noteq> 0) (splitlines output) of
        [] \<Rightarrow> None
      | l # ls \<Rightarrow> Some (last (l # ls)))"

subsection \<open>A concrete runtime for closed examples\<close>

text \<open>
  Stand-ins for the two parsers on the texts the examples use. \<open>example_json_loads\<close>
  agrees with \<open>json.loads\<close> on four handshake lines, raises \<open>RecursionError\<close> on a
  text that opens a thousand arrays or more, and rejects the rest, which in the examples is
  no JSON. \<open>example_target_description_from_json\<close> knows two target lines.
\<close>

definition example_json_loads :: "pystr \<Rightarrow> exn + json" where
  \<open>example_json_loads text =
     (if 1000 \<le> length (takeWhile (\<lambda>c. c = 0x5B) text) then Inl RecursionError
      else if text = ascii ''{"grpc_path": "/tmp/sock"}'' @ [0x0A]
      then Inr (JDict [(ascii ''grpc_path'', JStr (ascii ''/tmp/sock''))])
      else if text = ascii ''{"grpc_path": null}'' @ [0x0A]
      then Inr (JDict [(ascii ''grpc_path'', JNull)])
      else if text = ascii ''{"pid": 7}'' @ [0x0A]
      then Inr (JDict [(ascii ''pid'', JInt 7)])
      else if text = ascii ''[1]'' @ [0x0A]
      then Inr (JList [JInt 1])
      else Inl JSONDecodeError)\<close>

definition example_target :: "pystr \<Rightarrow> TargetDescription" where
  "example_target u =
     \<lparr>udid = u, name = ascii ''iPhone 8'', state = ascii ''Shutdown'',
      target_type = SIMULATOR, os_version = ascii ''iOS 13.0'',
      architecture = ascii ''x86_64''\<rparr>"

definition example_target_description_from_json :: "pystr \<Rightarrow> exn + TargetDescription" where
  \<open>example_target_description_from_json text =
     (if text = ascii ''{"udid": "ABC"}'' then Inr (example_target (ascii ''ABC''))
      else if text = ascii ''{"udid": "DEF"}'' then Inr (example_target (ascii ''DEF''))
      else Inl JSONDecodeError)\<close>

definition example_runtime :: "bool \<Rightarrow> child \<Rightarrow> runtime" where
  "example_runtime py311 c =
     \<lparr>platform = ascii ''darwin'',
      timeout_error_is_builtin = py311,
      json_loads = example_json_loads,
      target_description_from_json = example_target_description_from_json,
      create_subprocess_exec = (\<lambda>cmd. Inr c)\<rparr>"

definition example_companion :: Companion where
  "example_companion =
     Companion_init (Some (ascii ''/usr/local/bin/idb_companion'')) None
       (GetLogger (ascii ''idb'')) None None"

text \<open>
  A child that prints the given bytes and exits by itself with the given code after one
  second; a server that prints its handshake line after one second, keeps running, and
  exits one second after SIGTERM; and a child that prints nothing and ignores SIGTERM.
\<close>

definition exiting_child :: "bytes \<Rightarrow> int \<Rightarrow> child" where
  "exiting_child out rc =
     \<lparr>pid = 4242, on_communicate = Finishes 1 (out, rc), on_readline = Finishes 1 out,
      exited_at_handshake = Some rc, on_wait = Finishes 0 rc\<rparr>"


definition stuck_child :: child where
  "stuck_child =
     \<lparr>pid = 4242, on_communicate = Hangs, on_readline = Hangs, exited_at_handshake = None,
      on_wait = Hangs\<rparr>"

section \<open>Properties\<close>

subsection \<open>Teardown\<close>

text \<open>
  With a runtime in which \<open>asyncio.TimeoutError\<close> is the builtin \<open>TimeoutError\<close>, teardown
  escalates as intended: nothing is sent to a process that has exited; otherwise SIGTERM,
  and SIGKILL once when the wait times out.
\<close>

lemma terminate_process_escalation:
  assumes "timeout_error_is_builtin rt"
  shows "(\<forall>rc. returncode process = Some rc \<longrightarrow>
            terminate_process rt process timeout lg
              = (Inr (), info lg (Process_has_exited_with rc) process))
         \<and> (returncode process = None \<longrightarrow>
              (\<forall>rc. wait_for (on_wait (child process)) timeout = Inr rc \<longrightarrow>
                 (\<exists>p. terminate_process rt process timeout lg = (Inr (), p)
                      \<and> events p = events process
                           @ [Log lg (Stopping_process_with_SIGTERM_waiting timeout), SIGTERM,
                              Log lg (Process_has_exited_after_SIGTERM_with rc)]))
              \<and> (wait_for (on_wait (child process)) timeout = Inl AsyncioTimeoutError \<longrightarrow>
                 (\<exists>p. terminate_process rt process timeout lg = (Inr (), p)
                      \<and> events p = events process
                           @ [Log lg (Stopping_process_with_SIGTERM_waiting timeout), SIGTERM,
                              Log lg (Process_hasnt_exited_SIGKILLing timeout), SIGKILL])))"
  using assms by (simp add: terminate_process_def info_def terminate_def kill_def Let_def)

text \<open>
  With a runtime in which the two classes differ, the handler does not run: the timeout
  leaves \<open>_terminate_process\<close> as an exception, after SIGTERM and without SIGKILL.
\<close>

lemma terminate_process_timeout_escapes:
  assumes "\<not> timeout_error_is_builtin rt" and "returncode process = None"
    and "wait_for (on_wait (child process)) timeout = Inl AsyncioTimeoutError"
  shows "terminate_process rt process timeout lg
           = (Inl AsyncioTimeoutError,
              terminate (info lg (Stopping_process_with_SIGTERM_waiting timeout) process))"
  using assms by (simp add: terminate_process_def info_def terminate_def Let_def)

text \<open>
  Claim C1. Teardown escalation of \<open>_terminate_process\<close>: a process that has exited gets
  no signal; otherwise SIGTERM is sent and teardown waits up to the teardown timeout; a
  process that exits in time gets no SIGKILL, and when the wait exceeds the timeout
  SIGKILL is sent exactly once.

  The last part fails on the interpreters the module is written for. The module brings its
  own \<open>asynccontextmanager\<close>, which the standard library has from Python 3.7 on, so it runs
  on Python 3.6; up to Python 3.10 \<open>asyncio.TimeoutError\<close> is not the builtin
  \<open>TimeoutError\<close> that line 48 names, while \<open>_run_companion_command\<close> in the same file
  catches \<open>asyncio.TimeoutError\<close> (line 126). Evaluated on a child that ignores SIGTERM,
  with a teardown timeout of 30 seconds: SIGTERM is sent, no SIGKILL follows, and
  \<open>asyncio.TimeoutError\<close> leaves the function.
\<close>

theorem terminate_process_no_sigkill_before_py311:
  "terminate_process (example_runtime False stuck_child)
       \<lparr>child = stuck_child, returncode = None, events = []\<rparr> 30 (GetLogger (ascii ''idb''))
     = (Inl AsyncioTimeoutError,
        \<lparr>child = stuck_child, returncode = None,
         events = [Log (GetLogger (ascii ''idb'')) (Stopping_process_with_SIGTERM_waiting 30),
                   SIGTERM]\<rparr>)"
  by (simp add: terminate_process_def info_def terminate_def Let_def wait_for_def
        stuck_child_def example_runtime_def)

subsection \<open>Configuration\<close>

text \<open>
  Claim C4. When no companion path is configured, the operation fails at once with the
  configuration error of the platform (one message on macOS, another elsewhere) and no
  child process is spawned: the outcome carries no process, whatever the arguments, the
  block under \<open>async with\<close> and the runtime are.
\<close>

theorem no_companion_path_never_spawns:
  assumes "companion_path self = None"
  shows "start_companion_command rt self arguments body
           = Some (Inl (IdbException (if platform rt = ascii ''darwin''
                                       then CompanionPathNotProvided else NonMacOSPlatform)),
                   None)
         \<and> run_companion_command rt self arguments timeout
           = Some (Inl (IdbException (if platform rt = ascii ''darwin''
                                       then CompanionPathNotProvided else NonMacOSPlatform)),
                   None)"
  using assms by (simp add: start_companion_command_def run_companion_command_def)

theorem no_companion_path_never_spawns_witness:
  "companion_path (Companion_init None None (GetLogger (ascii ''idb'')) None None) = None
   \<and> start_companion_command (example_runtime True stuck_child)
         (Companion_init None None (GetLogger (ascii ''idb'')) None None)
         [ascii ''--boot'', ascii ''ABC''] (\<lambda>p. Some (Inr (), p))
       = Some (Inl (IdbException CompanionPathNotProvided), None)
   \<and> run_companion_command ((example_runtime True stuck_child)\<lparr>platform := ascii ''linux''\<rparr>)
         (Companion_init None None (GetLogger (ascii ''idb'')) None None)
         [ascii ''--boot'', ascii ''ABC''] None
       = Some (Inl (IdbException NonMacOSPlatform), None)"
proof -
  let ?self = "Companion_init None None (GetLogger (ascii ''idb'')) None None"
  have h: "companion_path ?self = None"
    by (simp add: Companion_init_def)
  have darwin: "platform (example_runtime True stuck_child) = ascii ''darwin''"
    by (simp add: example_runtime_def)
  have linux:
    "platform ((example_runtime True stuck_child)\<lparr>platform := ascii ''linux''\<rparr>)
       \<noteq> ascii ''darwin''"
    by (simp add: ascii_def)
  show ?thesis
    using h darwin linux
      no_companion_path_never_spawns [OF h, of "example_runtime True stuck_child"
        "[ascii ''--boot'', ascii ''ABC'']" "\<lambda>p. Some (Inr (), p)" None]
      no_companion_path_never_spawns [OF h,
        of "(example_runtime True stuck_child)\<lparr>platform := ascii ''linux''\<rparr>"
        "[ascii ''--boot'', ascii ''ABC'']" "\<lambda>p. Some (Inr (), p)" None]
    by simp
qed

subsection \<open>Running a command\<close>

text \<open>
  Shared facts. A timeout argument of zero takes the default, as no argument does. When
  \<open>communicate\<close> finishes within the timeout, the process has a return code at teardown,
  so teardown sends nothing and raises nothing, and the command ends with the decoded
  output, with the decoding error, or with the failure of a nonzero exit code.
\<close>

lemma timeout_or_zero: "timeout_or (Some 0) d = timeout_or None d"
  by (simp add: timeout_or_def)

lemma run_companion_command_zero:
  "run_companion_command rt self arguments (Some 0) = run_companion_command rt self arguments None"
  by (simp add: run_companion_command_def timeout_or_zero)

lemma terminate_process_exited:
  "returncode p = Some rc \<Longrightarrow>
     terminate_process rt p t lg = (Inr (), info lg (Process_has_exited_with rc) p)"
  by (simp add: terminate_process_def)

lemma run_companion_command_completed:
  assumes "companion_path self = Some path"
    and "create_subprocess_exec rt
           ([path] @ (case device_set_path self of None \<Rightarrow> []
                      | Some d \<Rightarrow> [ascii ''--device-set-path'', d]) @ arguments) = Inr c"
    and "wait_for (on_communicate c) (timeout_or timeout (companion_command_timeout self))
           = Inr (output, rc)"
  shows "\<exists>w. run_companion_command rt self arguments timeout
           = Some (if rc \<noteq> 0 then Inl (IdbException (FailedToRun arguments))
                   else (case utf8_decode output of
                           None \<Rightarrow> Inl UnicodeDecodeError
                         | Some text \<Rightarrow> Inr text), w)"
  using assms
  by (auto simp add: run_companion_command_def start_companion_command_def Let_def info_def
        terminate_process_exited split: option.splits)

text \<open>At the example runtime, a child that exits with code zero gives its decoded output.\<close>

lemma run_example_output:
  assumes "utf8_decode out = Some text"
  shows "\<exists>w. run_companion_command (example_runtime b (exiting_child out 0)) example_companion
               arguments None = Some (Inr text, w)"
proof -
  let ?c = "exiting_child out 0"
  let ?rt = "example_runtime b ?c"
  have h1: "companion_path example_companion = Some (ascii ''/usr/local/bin/idb_companion'')"
    by (simp add: example_companion_def Companion_init_def)
  have h2: "create_subprocess_exec ?rt
              ([ascii ''/usr/local/bin/idb_companion'']
               @ (case device_set_path example_companion of None \<Rightarrow> []
                  | Some d \<Rightarrow> [ascii ''--device-set-path'', d]) @ arguments) = Inr ?c"
    by (simp add: example_runtime_def)
  have h3: "wait_for (on_communicate ?c)
              (timeout_or None (companion_command_timeout example_companion)) = Inr (out, 0)"
    by (simp add: exiting_child_def wait_for_def timeout_or_def example_companion_def
          Companion_init_def DEFAULT_COMPANION_COMMAND_TIMEOUT_def)
  from run_companion_command_completed [OF h1 h2 h3] assms show ?thesis by simp
qed

lemmas text_simps =
  ascii_def ascii_bytes_def splitlines_def is_linebreak_def strip_def is_space_def
  is_cont_def cont_bits_def

lemma example_tdfj [simp]:
  "target_description_from_json (example_runtime b c) = example_target_description_from_json"
  by (simp add: example_runtime_def)

subsection \<open>Listing targets\<close>



lemma list_targets_of_output:
  "run_companion_command rt self
     ([ascii ''--list'', ascii ''1''] @ only_arg_from_filter only) timeout = Some (Inr output, w)
   \<Longrightarrow> list_targets rt self only timeout = Some (targets_of_lines rt (splitlines output), w)"
  by (simp add: list_targets_def)



subsection \<open>Describing a target\<close>

text \<open>
  Claim C7. \<open>target_description\<close> takes the list of \<open>list_targets\<close>, keeps the
  entries with the given udid (all of them when no udid is given), and then: no entry left
  fails with the \<open>IdbException\<close> "No device info found", more than one fails with the
  \<open>IdbException\<close> "More than one device info found", exactly one is returned.
\<close>

theorem target_description_selects_exactly_one:
  assumes "list_targets rt self only timeout = Some (Inr all_details, w)"
    and "details = (case udid' of None \<Rightarrow> all_details
                    | Some u \<Rightarrow> filter (\<lambda>target. udid target = u) all_details)"
  shows "(details = [] \<longrightarrow>
            target_description rt self udid' only timeout
              = Some (Inl (IdbException (NoDeviceInfoFound all_details)), w))
         \<and> (1 < length details \<longrightarrow>
            target_description rt self udid' only timeout
              = Some (Inl (IdbException (MoreThanOneDeviceInfo details)), w))
         \<and> (\<forall>t. details = [t] \<longrightarrow>
            target_description rt self udid' only timeout = Some (Inr t, w))"
  using assms by (auto simp add: target_description_def Let_def)

theorem target_description_selects_exactly_one_witness:
  \<open>map_option fst
      (target_description
         (example_runtime True
            (exiting_child
               (ascii_bytes ''{"udid": "ABC"}'' @ [0x0A] @ ascii_bytes ''{"udid": "DEF"}'' @ [0x0A]
                  @ ascii_bytes ''{"udid": "ABC"}'' @ [0x0A]) 0))
         example_companion (Some (ascii ''DEF'')) None None)
     = Some (Inr (example_target (ascii ''DEF'')))
   \<and> map_option fst
      (target_description
         (example_runtime True
            (exiting_child
               (ascii_bytes ''{"udid": "ABC"}'' @ [0x0A] @ ascii_bytes ''{"udid": "DEF"}'' @ [0x0A]
                  @ ascii_bytes ''{"udid": "ABC"}'' @ [0x0A]) 0))
         example_companion (Some (ascii ''ABC'')) None None)
     = Some (Inl (IdbException
                    (MoreThanOneDeviceInfo
                       [example_target (ascii ''ABC''), example_target (ascii ''ABC'')])))
   \<and> map_option fst
      (target_description
         (example_runtime True
            (exiting_child
               (ascii_bytes ''{"udid": "ABC"}'' @ [0x0A] @ ascii_bytes ''{"udid": "DEF"}'' @ [0x0A]
                  @ ascii_bytes ''{"udid": "ABC"}'' @ [0x0A]) 0))
         example_companion (Some (ascii ''XYZ'')) None None)
     = Some (Inl (IdbException
                    (NoDeviceInfoFound
                       [example_target (ascii ''ABC''), example_target (ascii ''DEF''),
                        example_target (ascii ''ABC'')])))\<close>
proof -
  let ?out = \<open>ascii_bytes ''{"udid": "ABC"}'' @ [0x0A] @ ascii_bytes ''{"udid": "DEF"}'' @ [0x0A]
                  @ ascii_bytes ''{"udid": "ABC"}'' @ [0x0A]\<close>
  let ?text = \<open>ascii ''{"udid": "ABC"}'' @ [0x0A] @ ascii ''{"udid": "DEF"}'' @ [0x0A]
                  @ ascii ''{"udid": "ABC"}'' @ [0x0A]\<close>
  let ?rt = "example_runtime True (exiting_child ?out 0)"
  let ?all = "[example_target (ascii ''ABC''), example_target (ascii ''DEF''),
               example_target (ascii ''ABC'')]"
  have d: "utf8_decode ?out = Some ?text" by (simp add: text_simps)
  have ls: \<open>splitlines ?text
              = [ascii ''{"udid": "ABC"}'', ascii ''{"udid": "DEF"}'', ascii ''{"udid": "ABC"}'']\<close>
    by (simp add: text_simps)
  have s1: \<open>strip (ascii ''{"udid": "ABC"}'') = ascii ''{"udid": "ABC"}''\<close>
    by (simp add: text_simps)
  have s2: \<open>strip (ascii ''{"udid": "DEF"}'') = ascii ''{"udid": "DEF"}''\<close>
    by (simp add: text_simps)
  have n1: \<open>ascii ''{"udid": "ABC"}'' \<noteq> []\<close> \<open>ascii ''{"udid": "DEF"}'' \<noteq> []\<close>
    by (simp_all add: ascii_def)
  have p1: \<open>example_target_description_from_json (ascii ''{"udid": "ABC"}'')
              = Inr (example_target (ascii ''ABC''))\<close>
    by (simp add: example_target_description_from_json_def)
  have p2: \<open>example_target_description_from_json (ascii ''{"udid": "DEF"}'')
              = Inr (example_target (ascii ''DEF''))\<close>
    by (simp add: example_target_description_from_json_def ascii_def)
  have tl: "targets_of_lines ?rt (splitlines ?text) = Inr ?all"
    unfolding ls using s1 s2 n1 p1 p2 by simp
  from run_example_output [OF d] obtain w where
    "run_companion_command ?rt example_companion
       ([ascii ''--list'', ascii ''1''] @ only_arg_from_filter None) None = Some (Inr ?text, w)"
    by blast
  from list_targets_of_output [OF this] tl
  have lt: "list_targets ?rt example_companion None None = Some (Inr ?all, w)"
    by simp
  have u: "udid (example_target u) = u" for u
    by (simp add: example_target_def)
  have f1: "filter (\<lambda>target. udid target = ascii ''DEF'') ?all = [example_target (ascii ''DEF'')]"
    by (simp add: u ascii_def)
  have f2: "filter (\<lambda>target. udid target = ascii ''ABC'') ?all
              = [example_target (ascii ''ABC''), example_target (ascii ''ABC'')]"
    by (simp add: u ascii_def)
  have f3: "filter (\<lambda>target. udid target = ascii ''XYZ'') ?all = []"
    by (simp add: u ascii_def)
  show ?thesis
    using target_description_selects_exactly_one [OF lt refl, of "Some (ascii ''DEF'')"]
      target_description_selects_exactly_one [OF lt refl, of "Some (ascii ''ABC'')"]
      target_description_selects_exactly_one [OF lt refl, of "Some (ascii ''XYZ'')"]
      f1 f2 f3
    by simp
qed

subsection \<open>Creating and cloning a target\<close>

text \<open>
  The last element of \<open>splitlines\<close>. After a newline that is followed by more text, the
  last line is the last line of that text; a text without line boundary is one line, with
  or without a newline at its end.
\<close>

lemma splitlines_from_after_newline:
  "splitlines_from False rest \<noteq> [] \<Longrightarrow>
   splitlines_from f (pre @ 0x0A # rest) \<noteq> []
   \<and> last (splitlines_from f (pre @ 0x0A # rest)) = last (splitlines_from False rest)
   \<and> (\<not> f \<longrightarrow> 2 \<le> length (splitlines_from f (pre @ 0x0A # rest)))"
proof (induction pre arbitrary: f)
  case Nil
  then show ?case by (cases "splitlines_from False rest") (auto simp add: is_linebreak_def)
next
  case (Cons c pre)
  let ?rec = "\<lambda>g. splitlines_from g (pre @ 0x0A # rest)"
  have ih: "?rec g \<noteq> [] \<and> last (?rec g) = last (splitlines_from False rest)
            \<and> (\<not> g \<longrightarrow> 2 \<le> length (?rec g))" for g
    by (rule Cons.IH [OF Cons.prems])
  show ?case
  proof (cases "f \<and> c = 0x0A")
    case True
    with ih [of False] show ?thesis by simp
  next
    case nolf: False
    show ?thesis
    proof (cases "is_linebreak c")
      case True
      from ih [of "c = 0x0D"] have "1 \<le> length (?rec (c = 0x0D))"
        by (cases "?rec (c = 0x0D)") auto
      with nolf True ih [of "c = 0x0D"] show ?thesis by auto
    next
      case False
      from ih [of False] obtain l l' ls where "?rec False = l # l' # ls"
        by (cases "?rec False"; cases "tl (?rec False)") auto
      with nolf False ih [of False] show ?thesis by auto
    qed
  qed
qed

lemma splitlines_from_one_line:
  "j \<noteq> [] \<Longrightarrow> \<forall>c\<in>set j. \<not> is_linebreak c \<Longrightarrow>
   splitlines_from f j = [j] \<and> splitlines_from f (j @ [0x0A]) = [j]"
proof (induction j arbitrary: f)
  case Nil
  then show ?case by simp
next
  case (Cons c j)
  have c: "\<not> is_linebreak c" "c \<noteq> 0x0A"
    using Cons.prems by (auto simp add: is_linebreak_def)
  show ?case
  proof (cases "j = []")
    case True
    then show ?thesis using c by (simp add: is_linebreak_def)
  next
    case False
    with Cons.IH [of False] Cons.prems c show ?thesis by simp
  qed
qed

lemma last_line_cases:
  fixes f :: "pystr \<Rightarrow> exn + 'a"
  defines "R \<equiv> \<lambda>out w. (case splitlines out of
                              [] \<Rightarrow> Some (Inl IndexError, w)
                            | l # ls \<Rightarrow> Some (f (last (l # ls)), w))"
  shows "(out = [] \<longrightarrow> R out w = Some (Inl IndexError, w))
         \<and> (\<forall>pre j tail. out = pre @ [0x0A] @ j @ tail \<and> j \<noteq> []
                \<and> (\<forall>c\<in>set j. \<not> is_linebreak c) \<and> (tail = [] \<or> tail = [0x0A])
                \<longrightarrow> R out w = Some (f j, w))
         \<and> (\<forall>j tail. out = j @ tail \<and> j \<noteq> []
                \<and> (\<forall>c\<in>set j. \<not> is_linebreak c) \<and> (tail = [] \<or> tail = [0x0A])
                \<longrightarrow> R out w = Some (f j, w))
         \<and> (\<forall>pre. out = pre @ [0x0A, 0x0A] \<longrightarrow> R out w = Some (f [], w))"
proof (intro conjI allI impI)
  assume "out = []"
  then show "R out w = Some (Inl IndexError, w)" by (simp add: R_def splitlines_def)
next
  fix pre j tail
  assume a: "out = pre @ [0x0A] @ j @ tail \<and> j \<noteq> []
             \<and> (\<forall>c\<in>set j. \<not> is_linebreak c) \<and> (tail = [] \<or> tail = [0x0A])"
  then have one: "splitlines_from False (j @ tail) = [j]"
    using splitlines_from_one_line [of j False] by auto
  from splitlines_from_after_newline [of "j @ tail" False pre] one
  have "splitlines out \<noteq> [] \<and> last (splitlines out) = j"
    using a by (simp add: splitlines_def)
  then show "R out w = Some (f j, w)"
    by (cases "splitlines out") (auto simp add: R_def)
next
  fix j tail
  assume a: "out = j @ tail \<and> j \<noteq> []
             \<and> (\<forall>c\<in>set j. \<not> is_linebreak c) \<and> (tail = [] \<or> tail = [0x0A])"
  then have "splitlines out = [j]"
    using splitlines_from_one_line [of j False] by (auto simp add: splitlines_def)
  then show "R out w = Some (f j, w)" by (simp add: R_def)
next
  fix pre
  assume a: "out = pre @ [0x0A, 0x0A]"
  have one: "splitlines_from False [0x0A] = [[]]" by (simp add: is_linebreak_def)
  from splitlines_from_after_newline [of "[0x0A]" False pre] one
  have "splitlines out \<noteq> [] \<and> last (splitlines out) = []"
    using a by (simp add: splitlines_def)
  then show "R out w = Some (f [], w)"
    by (cases "splitlines out") (auto simp add: R_def)
qed

lemma create_of_output:
  "run_companion_command rt self
      [ascii ''--create'', device_type @ ascii '','' @ os_version'] timeout = Some (Inr out, w)
   \<Longrightarrow> create rt self device_type os_version' timeout
       = (case splitlines out of
            [] \<Rightarrow> Some (Inl IndexError, w)
          | l # ls \<Rightarrow> Some (target_description_from_json rt (last (l # ls)), w))"
  by (simp add: create_def)

lemma clone_of_output:
  "run_companion_command rt self
      ([ascii ''--clone'', udid']
         @ (case destination_device_set of
              None \<Rightarrow> []
            | Some d \<Rightarrow> [ascii ''--clone-destination-set'', d])) timeout = Some (Inr out, w)
   \<Longrightarrow> clone rt self udid' destination_device_set timeout
       = (case splitlines out of
            [] \<Rightarrow> Some (Inl IndexError, w)
          | l # ls \<Rightarrow> Some (target_description_from_json rt (last (l # ls)), w))"
  by (simp add: clone_def Let_def)

text \<open>
  Claim C6, as the code has it. \<open>create\<close> and \<open>clone\<close> parse
  \<open>output.splitlines()[-1]\<close>, the last line, and ignore the lines before it: for
  \<open>"progress: 50%\n{json}\n"\<close> the record comes from the JSON line. No line is skipped
  for being blank: when the output ends with an empty line, that line is what is parsed,
  and on empty output the index fails with \<open>IndexError\<close>.
\<close>

theorem create_clone_parse_last_line:
  "(run_companion_command rt self
      [ascii ''--create'', device_type @ ascii '','' @ os_version'] timeout
      = Some (Inr out, w) \<longrightarrow>
    (out = [] \<longrightarrow>
       create rt self device_type os_version' timeout = Some (Inl IndexError, w))
    \<and> (\<forall>pre j tail. out = pre @ [0x0A] @ j @ tail \<and> j \<noteq> []
           \<and> (\<forall>c\<in>set j. \<not> is_linebreak c) \<and> (tail = [] \<or> tail = [0x0A])
           \<longrightarrow> create rt self device_type os_version' timeout
                 = Some (target_description_from_json rt j, w))
    \<and> (\<forall>j tail. out = j @ tail \<and> j \<noteq> []
           \<and> (\<forall>c\<in>set j. \<not> is_linebreak c) \<and> (tail = [] \<or> tail = [0x0A])
           \<longrightarrow> create rt self device_type os_version' timeout
                 = Some (target_description_from_json rt j, w))
    \<and> (\<forall>pre. out = pre @ [0x0A, 0x0A]
           \<longrightarrow> create rt self device_type os_version' timeout
                 = Some (target_description_from_json rt [], w)))
   \<and> (run_companion_command rt self
        ([ascii ''--clone'', udid']
           @ (case destination_device_set of
                None \<Rightarrow> []
              | Some d \<Rightarrow> [ascii ''--clone-destination-set'', d])) timeout
        = Some (Inr out, w) \<longrightarrow>
    (out = [] \<longrightarrow>
       clone rt self udid' destination_device_set timeout = Some (Inl IndexError, w))
    \<and> (\<forall>pre j tail. out = pre @ [0x0A] @ j @ tail \<and> j \<noteq> []
           \<and> (\<forall>c\<in>set j. \<not> is_linebreak c) \<and> (tail = [] \<or> tail = [0x0A])
           \<longrightarrow> clone rt self udid' destination_device_set timeout
                 = Some (target_description_from_json rt j, w))
    \<and> (\<forall>j tail. out = j @ tail \<and> j \<noteq> []
           \<and> (\<forall>c\<in>set j. \<not> is_linebreak c) \<and> (tail = [] \<or> tail = [0x0A])
           \<longrightarrow> clone rt self udid' destination_device_set timeout
                 = Some (target_description_from_json rt j, w))
    \<and> (\<forall>pre. out = pre @ [0x0A, 0x0A]
           \<longrightarrow> clone rt self udid' destination_device_set timeout
                 = Some (target_description_from_json rt [], w)))"
proof (rule conjI; rule impI)
  assume r: "run_companion_command rt self
      [ascii ''--create'', device_type @ ascii '','' @ os_version'] timeout
      = Some (Inr out, w)"
  show "(out = [] \<longrightarrow>
       create rt self device_type os_version' timeout = Some (Inl IndexError, w))
    \<and> (\<forall>pre j tail. out = pre @ [0x0A] @ j @ tail \<and> j \<noteq> []
           \<and> (\<forall>c\<in>set j. \<not> is_linebreak c) \<and> (tail = [] \<or> tail = [0x0A])
           \<longrightarrow> create rt self device_type os_version' timeout
                 = Some (target_description_from_json rt j, w))
    \<and> (\<forall>j tail. out = j @ tail \<and> j \<noteq> []
           \<and> (\<forall>c\<in>set j. \<not> is_linebreak c) \<and> (tail = [] \<or> tail = [0x0A])
           \<longrightarrow> create rt self device_type os_version' timeout
                 = Some (target_description_from_json rt j, w))
    \<and> (\<forall>pre. out = pre @ [0x0A, 0x0A]
           \<longrightarrow> create rt self device_type os_version' timeout
                 = Some (target_description_from_json rt [], w))"
    unfolding create_of_output [OF r] by (rule last_line_cases)
next
  assume r: "run_companion_command rt self
        ([ascii ''--clone'', udid']
           @ (case destination_device_set of
                None \<Rightarrow> []
              | Some d \<Rightarrow> [ascii ''--clone-destination-set'', d])) timeout
        = Some (Inr out, w)"
  show "(out = [] \<longrightarrow>
       clone rt self udid' destination_device_set timeout = Some (Inl IndexError, w))
    \<and> (\<forall>pre j tail. out = pre @ [0x0A] @ j @ tail \<and> j \<noteq> []
           \<and> (\<forall>c\<in>set j. \<not> is_linebreak c) \<and> (tail = [] \<or> tail = [0x0A])
           \<longrightarrow> clone rt self udid' destination_device_set timeout
                 = Some (target_description_from_json rt j, w))
    \<and> (\<forall>j tail. out = j @ tail \<and> j \<noteq> []
           \<and> (\<forall>c\<in>set j. \<not> is_linebreak c) \<and> (tail = [] \<or> tail = [0x0A])
           \<longrightarrow> clone rt self udid' destination_device_set timeout
                 = Some (target_description_from_json rt j, w))
    \<and> (\<forall>pre. out = pre @ [0x0A, 0x0A]
           \<longrightarrow> clone rt self udid' destination_device_set timeout
                 = Some (target_description_from_json rt [], w))"
    unfolding clone_of_output [OF r] by (rule last_line_cases)
qed

theorem create_clone_parse_last_line_witness:
  \<open>map_option fst
      (create
         (example_runtime True
            (exiting_child
               (ascii_bytes ''progress: 50%'' @ [0x0A] @ ascii_bytes ''{"udid": "ABC"}'' @ [0x0A]) 0))
         example_companion (ascii ''iPhone 8'') (ascii ''13.0'') None)
     = Some (Inr (example_target (ascii ''ABC'')))
   \<and> map_option fst
      (clone
         (example_runtime True
            (exiting_child
               (ascii_bytes ''progress: 50%'' @ [0x0A] @ ascii_bytes ''{"udid": "ABC"}'' @ [0x0A]) 0))
         example_companion (ascii ''DEF'') None None)
     = Some (Inr (example_target (ascii ''ABC'')))\<close>
proof -
  let ?out = \<open>ascii_bytes ''progress: 50%'' @ [0x0A] @ ascii_bytes ''{"udid": "ABC"}'' @ [0x0A]\<close>
  let ?j = \<open>ascii ''{"udid": "ABC"}''\<close>
  let ?text = "ascii ''progress: 50%'' @ [0x0A] @ ?j @ [0x0A]"
  let ?rt = "example_runtime True (exiting_child ?out 0)"
  have d: "utf8_decode ?out = Some ?text" by (simp add: text_simps)
  have j: "?text = ascii ''progress: 50%'' @ [0x0A] @ ?j @ [0x0A] \<and> ?j \<noteq> []
           \<and> (\<forall>c\<in>set ?j. \<not> is_linebreak c) \<and> ([0x0A] = [] \<or> [0x0A::nat] = [0x0A])"
    by (simp add: text_simps)
  have p: "target_description_from_json ?rt ?j = Inr (example_target (ascii ''ABC''))"
    by (simp add: example_target_description_from_json_def)
  from run_example_output [OF d] obtain w1 where
    r1: "run_companion_command ?rt example_companion
           [ascii ''--create'', ascii ''iPhone 8'' @ ascii '','' @ ascii ''13.0''] None
         = Some (Inr ?text, w1)"
    by blast
  from run_example_output [OF d] obtain w2 where
    r2: "run_companion_command ?rt example_companion
           ([ascii ''--clone'', ascii ''DEF'']
              @ (case None of None \<Rightarrow> []
                 | Some d \<Rightarrow> [ascii ''--clone-destination-set'', d])) None
         = Some (Inr ?text, w2)"
    by blast
  note t1 = create_clone_parse_last_line
         [where rt = ?rt and self = example_companion and device_type = "ascii ''iPhone 8''"
            and os_version' = "ascii ''13.0''" and timeout = None and out = ?text and w = w1,
          THEN conjunct1, THEN mp, OF r1, THEN conjunct2, THEN conjunct1,
          THEN spec, THEN spec, THEN spec, THEN mp, OF j]
  note t2 = create_clone_parse_last_line
         [where rt = ?rt and self = example_companion and udid' = "ascii ''DEF''"
            and destination_device_set = None and timeout = None and out = ?text and w = w2,
          THEN conjunct2, THEN mp, OF r2, THEN conjunct2, THEN conjunct1,
          THEN spec, THEN spec, THEN spec, THEN mp, OF j]
  from t1 t2 p show ?thesis by simp
qed

text \<open>
  The claim as the spec states it takes the last line that is not empty. On the output
  \<open>{"udid": "ABC"}\n\n\<close> the code parses the empty last line and fails, while the last
  line that is not empty parses to a target.
\<close>

theorem create_last_line_blank_counterexample:
  \<open>map_option fst
      (create
         (example_runtime True
            (exiting_child (ascii_bytes ''{"udid": "ABC"}'' @ [0x0A, 0x0A]) 0))
         example_companion (ascii ''iPhone 8'') (ascii ''13.0'') None)
     = Some (Inl JSONDecodeError)
   \<and> map_option example_target_description_from_json
         (last_nonempty_line (ascii ''{"udid": "ABC"}'' @ [0x0A, 0x0A]))
     = Some (Inr (example_target (ascii ''ABC'')))\<close>
proof -
  let ?out = \<open>ascii_bytes ''{"udid": "ABC"}'' @ [0x0A, 0x0A]\<close>
  let ?text = \<open>ascii ''{"udid": "ABC"}'' @ [0x0A, 0x0A]\<close>
  let ?rt = "example_runtime True (exiting_child ?out 0)"
  have d: "utf8_decode ?out = Some ?text" by (simp add: text_simps)
  have ls: \<open>splitlines ?text = [ascii ''{"udid": "ABC"}'', []]\<close>
    by (simp add: text_simps)
  have s1: \<open>strip (ascii ''{"udid": "ABC"}'') = ascii ''{"udid": "ABC"}''\<close>
    by (simp add: text_simps)
  have s2: "strip [] = []" by (simp add: strip_def)
  have n1: \<open>ascii ''{"udid": "ABC"}'' \<noteq> []\<close> by (simp add: ascii_def)
  from run_example_output [OF d] obtain w where
    r: "run_companion_command ?rt example_companion
       [ascii ''--create'', ascii ''iPhone 8'' @ ascii '','' @ ascii ''13.0''] None
     = Some (Inr ?text, w)"
    by blast
  have "create ?rt example_companion (ascii ''iPhone 8'') (ascii ''13.0'') None
               = Some (example_target_description_from_json [], w)"
    unfolding create_of_output [OF r] ls by simp
  moreover have "example_target_description_from_json []
                   = Inl JSONDecodeError"
    by (simp add: example_target_description_from_json_def ascii_def)
  moreover have \<open>last_nonempty_line ?text = Some (ascii ''{"udid": "ABC"}'')\<close>
    unfolding last_nonempty_line_def ls using s1 s2 n1 by simp
  moreover have \<open>example_target_description_from_json (ascii ''{"udid": "ABC"}'')
                   = Inr (example_target (ascii ''ABC''))\<close>
    by (simp add: example_target_description_from_json_def)
  ultimately show ?thesis by simp
qed

subsection \<open>The scope of a process\<close>

text \<open>
  Shared facts. When the block under \<open>async with\<close> ends, \<open>_start_companion_command\<close>
  ends with the block's result after one call of \<open>_terminate_process\<close>, unless that
  call raises: then its exception replaces the block's result. A command whose wait
  exceeds the timeout ends with the timed-out failure when the teardown raises nothing.
\<close>

lemma start_companion_command_ended:
  assumes "companion_path self = Some path"
    and "create_subprocess_exec rt
           ([path] @ (case device_set_path self of None \<Rightarrow> []
                      | Some d \<Rightarrow> [ascii ''--device-set-path'', d]) @ arguments) = Inr c"
    and "lg = GetChild (logger self) (pid c) (join (ascii '' '') arguments)"
    and "p0 = info lg Launched_process \<lparr>child = c, returncode = None, events = []\<rparr>"
    and "body p0 = Some (r, p1)"
  shows "start_companion_command rt self arguments body
           = Some (case fst (terminate_process rt p1 (companion_teardown_timeout self) lg) of
                     Inl e \<Rightarrow> Inl e
                   | Inr u \<Rightarrow> r,
                   Some (snd (terminate_process rt p1 (companion_teardown_timeout self) lg)))"
  using assms
  by (simp add: start_companion_command_def Let_def split: prod.splits sum.splits)

lemma run_companion_command_timed_out:
  assumes "companion_path self = Some path"
    and "create_subprocess_exec rt
           ([path] @ (case device_set_path self of None \<Rightarrow> []
                      | Some d \<Rightarrow> [ascii ''--device-set-path'', d]) @ arguments) = Inr c"
    and "wait_for (on_communicate c) (timeout_or timeout (companion_command_timeout self))
           = Inl AsyncioTimeoutError"
    and "(\<exists>rc. wait_for (on_wait c) (companion_teardown_timeout self) = Inr rc)
         \<or> (timeout_error_is_builtin rt
            \<and> wait_for (on_wait c) (companion_teardown_timeout self) = Inl AsyncioTimeoutError)"
  shows "map_option fst (run_companion_command rt self arguments timeout)
           = Some (Inl (IdbException
                          (TimedOutOnCommand (timeout_or timeout (companion_command_timeout self))
                             (join (ascii '' '') arguments))))"
  using assms
  by (auto simp add: run_companion_command_def start_companion_command_def Let_def info_def
        terminate_process_def terminate_def kill_def)

lemma example_spawn:
  "companion_path example_companion = Some (ascii ''/usr/local/bin/idb_companion'')"
  "create_subprocess_exec (example_runtime b c)
     ([ascii ''/usr/local/bin/idb_companion'']
      @ (case device_set_path example_companion of None \<Rightarrow> []
         | Some d \<Rightarrow> [ascii ''--device-set-path'', d]) @ arguments) = Inr c"
  "companion_command_timeout example_companion = 120"
  "companion_teardown_timeout example_companion = 30"
  by (simp_all add: example_companion_def Companion_init_def example_runtime_def
        DEFAULT_COMPANION_COMMAND_TIMEOUT_def DEFAULT_COMPANION_TEARDOWN_TIMEOUT_def)

text \<open>
  Claim C3, as the code has it. When the call is not cancelled,
  \<open>_run_companion_command\<close> has four outcomes. The process exits with code zero within
  the timeout and its output is UTF-8: the decoded output is returned. It exits with code
  zero and the output is no UTF-8: \<open>UnicodeDecodeError\<close>. It exits with another code
  within the timeout: the \<open>IdbException\<close> "Failed to run" with the arguments, never the
  timed-out one. The wait exceeds the timeout and the teardown completes: the
  \<open>IdbException\<close> "Timed out" with the timeout and the arguments, never the failed-to-run
  one. The code has one exception class for both failures; the messages tell them apart.
\<close>

theorem run_companion_command_outcomes:
  assumes "companion_path self = Some path"
    and "create_subprocess_exec rt
           ([path] @ (case device_set_path self of None \<Rightarrow> []
                      | Some d \<Rightarrow> [ascii ''--device-set-path'', d]) @ arguments) = Inr c"
    and "T = timeout_or timeout (companion_command_timeout self)"
  shows "(\<forall>out decoded. wait_for (on_communicate c) T = Inr (out, 0)
              \<and> utf8_decode out = Some decoded \<longrightarrow>
            map_option fst (run_companion_command rt self arguments timeout)
              = Some (Inr decoded))
         \<and> (\<forall>out. wait_for (on_communicate c) T = Inr (out, 0) \<and> utf8_decode out = None \<longrightarrow>
            map_option fst (run_companion_command rt self arguments timeout)
              = Some (Inl UnicodeDecodeError))
         \<and> (\<forall>out rc. wait_for (on_communicate c) T = Inr (out, rc) \<and> rc \<noteq> 0 \<longrightarrow>
            map_option fst (run_companion_command rt self arguments timeout)
              = Some (Inl (IdbException (FailedToRun arguments))))
         \<and> (wait_for (on_communicate c) T = Inl AsyncioTimeoutError
              \<and> ((\<exists>rc. wait_for (on_wait c) (companion_teardown_timeout self) = Inr rc)
                 \<or> (timeout_error_is_builtin rt
                    \<and> wait_for (on_wait c) (companion_teardown_timeout self)
                        = Inl AsyncioTimeoutError)) \<longrightarrow>
            map_option fst (run_companion_command rt self arguments timeout)
              = Some (Inl (IdbException (TimedOutOnCommand T (join (ascii '' '') arguments)))))"
proof (intro conjI allI impI)
  fix out decoded
  assume a: "wait_for (on_communicate c) T = Inr (out, 0) \<and> utf8_decode out = Some decoded"
  with run_companion_command_completed [OF assms(1) assms(2), of timeout out 0] assms(3)
  show "map_option fst (run_companion_command rt self arguments timeout) = Some (Inr decoded)"
    by auto
next
  fix out
  assume a: "wait_for (on_communicate c) T = Inr (out, 0) \<and> utf8_decode out = None"
  with run_companion_command_completed [OF assms(1) assms(2), of timeout out 0] assms(3)
  show "map_option fst (run_companion_command rt self arguments timeout)
          = Some (Inl UnicodeDecodeError)"
    by auto
next
  fix out rc
  assume a: "wait_for (on_communicate c) T = Inr (out, rc) \<and> rc \<noteq> 0"
  with run_companion_command_completed [OF assms(1) assms(2), of timeout out rc] assms(3)
  show "map_option fst (run_companion_command rt self arguments timeout)
          = Some (Inl (IdbException (FailedToRun arguments)))"
    by auto
next
  assume a: "wait_for (on_communicate c) T = Inl AsyncioTimeoutError
              \<and> ((\<exists>rc. wait_for (on_wait c) (companion_teardown_timeout self) = Inr rc)
                 \<or> (timeout_error_is_builtin rt
                    \<and> wait_for (on_wait c) (companion_teardown_timeout self)
                        = Inl AsyncioTimeoutError))"
  then show "map_option fst (run_companion_command rt self arguments timeout)
          = Some (Inl (IdbException (TimedOutOnCommand T (join (ascii '' '') arguments))))"
    using run_companion_command_timed_out [OF assms(1) assms(2), of timeout] assms(3)
    by blast
qed

theorem run_companion_command_outcomes_witness:
  "map_option fst
     (run_companion_command (example_runtime True (exiting_child (ascii_bytes ''ok'') 0))
        example_companion [ascii ''--boot'', ascii ''ABC''] None)
     = Some (Inr (ascii ''ok''))
   \<and> map_option fst
     (run_companion_command (example_runtime True (exiting_child [0xFF] 0))
        example_companion [ascii ''--boot'', ascii ''ABC''] None)
     = Some (Inl UnicodeDecodeError)
   \<and> map_option fst
     (run_companion_command (example_runtime True (exiting_child (ascii_bytes ''boom'') 1))
        example_companion [ascii ''--boot'', ascii ''ABC''] None)
     = Some (Inl (IdbException (FailedToRun [ascii ''--boot'', ascii ''ABC''])))
   \<and> map_option fst
     (run_companion_command (example_runtime True stuck_child)
        example_companion [ascii ''--boot'', ascii ''ABC''] (Some 5))
     = Some (Inl (IdbException (TimedOutOnCommand 5 (ascii ''--boot ABC''))))"
proof -
  let ?args = "[ascii ''--boot'', ascii ''ABC'']"
  have T: "(120::int) = timeout_or None (companion_command_timeout example_companion)"
    "(5::int) = timeout_or (Some 5) (companion_command_timeout example_companion)"
    by (simp_all add: timeout_or_def example_spawn)
  have w1: "wait_for (on_communicate (exiting_child out rc)) 120 = Inr (out, rc)" for out rc
    by (simp add: wait_for_def exiting_child_def)
  have w2: "wait_for (on_communicate stuck_child) 5 = Inl AsyncioTimeoutError
            \<and> ((\<exists>rc. wait_for (on_wait stuck_child)
                        (companion_teardown_timeout example_companion) = Inr rc)
               \<or> (timeout_error_is_builtin (example_runtime True stuck_child)
                  \<and> wait_for (on_wait stuck_child)
                       (companion_teardown_timeout example_companion) = Inl AsyncioTimeoutError))"
    by (simp add: wait_for_def stuck_child_def example_runtime_def)
  have d1: "utf8_decode (ascii_bytes ''ok'') = Some (ascii ''ok'')"
    by (simp add: text_simps)
  have d2: "utf8_decode [0xFF] = None" by simp
  have j: "join (ascii '' '') ?args = ascii ''--boot ABC''"
    by (simp add: ascii_def)
  note sp = example_spawn(2) [where arguments = ?args]
  note a = run_companion_command_outcomes
             [OF example_spawn(1) sp T(1), THEN conjunct1, THEN spec, THEN spec,
              THEN mp, OF conjI, OF w1 [of "ascii_bytes ''ok''" 0] d1]
  note b = run_companion_command_outcomes
             [OF example_spawn(1) sp T(1), THEN conjunct2, THEN conjunct1,
              THEN spec, THEN mp, OF conjI, OF w1 [of "[0xFF]" 0] d2]
  have ne: "(1::int) \<noteq> 0" by simp
  note c = run_companion_command_outcomes
             [OF example_spawn(1) sp T(1), THEN conjunct2, THEN conjunct2,
              THEN conjunct1, THEN spec, THEN spec, THEN mp, OF conjI, OF w1 [of "ascii_bytes ''boom''" 1] ne]
  note d = run_companion_command_outcomes
             [OF example_spawn(1) sp T(2), THEN conjunct2, THEN conjunct2,
              THEN conjunct2, THEN mp, OF w2]
  from a b c d j show ?thesis
    by simp
qed

text \<open>
  The claim as the spec states it has three outcomes, and the full output returned after
  an exit with code zero. On a process that prints the byte \<open>0xFF\<close> and exits with code
  zero the call fails with \<open>UnicodeDecodeError\<close>.
\<close>

theorem run_companion_command_undecodable_counterexample:
  "map_option fst
     (run_companion_command (example_runtime True (exiting_child [0xFF] 0))
        example_companion [ascii ''--boot'', ascii ''ABC''] None)
     = Some (Inl UnicodeDecodeError)"
proof -
  have w: "wait_for (on_communicate (exiting_child [0xFF] 0))
             (timeout_or None (companion_command_timeout example_companion)) = Inr ([0xFF], 0)"
    by (simp add: wait_for_def exiting_child_def timeout_or_def example_spawn)
  from run_companion_command_completed [OF example_spawn(1) example_spawn(2) w]
  show ?thesis by auto
qed

text \<open>
  A wait under a timeout ends in one of three ways, so \<open>_terminate_process\<close> has five
  paths, and each fixes the exception it raises, the return code it leaves and the log
  records and signals it adds. \<open>_start_companion_command\<close> adds them after what the
  block did to the process, and gives the block's result only when teardown raised
  nothing.
\<close>

lemma wait_for_cases:
  "(\<exists>v. wait_for w t = Inr v) \<or> wait_for w t = Inl AsyncioTimeoutError
   \<or> wait_for w t = Inl CancelledError"
  by (cases w) (auto simp add: wait_for_def)

lemma terminate_process_outcomes:
  "(\<forall>rc. returncode p = Some rc \<longrightarrow>
      terminate_process rt p t lg
        = (Inr (), p\<lparr>events := events p @ [Log lg (Process_has_exited_with rc)]\<rparr>))
   \<and> (returncode p = None \<longrightarrow>
        (\<forall>rc. wait_for (on_wait (child p)) t = Inr rc \<longrightarrow>
           terminate_process rt p t lg
             = (Inr (),
                p\<lparr>returncode := Some rc,
                  events := events p
                    @ [Log lg (Stopping_process_with_SIGTERM_waiting t), SIGTERM,
                       Log lg (Process_has_exited_after_SIGTERM_with rc)]\<rparr>))
        \<and> (wait_for (on_wait (child p)) t = Inl AsyncioTimeoutError
              \<and> timeout_error_is_builtin rt \<longrightarrow>
           terminate_process rt p t lg
             = (Inr (),
                p\<lparr>events := events p
                    @ [Log lg (Stopping_process_with_SIGTERM_waiting t), SIGTERM,
                       Log lg (Process_hasnt_exited_SIGKILLing t), SIGKILL]\<rparr>))
        \<and> (wait_for (on_wait (child p)) t = Inl AsyncioTimeoutError
              \<and> \<not> timeout_error_is_builtin rt \<longrightarrow>
           terminate_process rt p t lg
             = (Inl AsyncioTimeoutError,
                p\<lparr>events := events p
                    @ [Log lg (Stopping_process_with_SIGTERM_waiting t), SIGTERM]\<rparr>))
        \<and> (wait_for (on_wait (child p)) t = Inl CancelledError \<longrightarrow>
           terminate_process rt p t lg
             = (Inl CancelledError,
                p\<lparr>events := events p
                    @ [Log lg (Stopping_process_with_SIGTERM_waiting t), SIGTERM]\<rparr>)))"
  by (simp add: terminate_process_def info_def terminate_def kill_def Let_def)

lemma start_companion_command_outcomes:
  assumes "companion_path self = Some path"
    and "create_subprocess_exec rt
           ([path] @ (case device_set_path self of None \<Rightarrow> []
                      | Some d \<Rightarrow> [ascii ''--device-set-path'', d]) @ arguments) = Inr c"
    and "lg = GetChild (logger self) (pid c) (join (ascii '' '') arguments)"
    and "p0 = \<lparr>child = c, returncode = None, events = [Log lg Launched_process]\<rparr>"
    and "body p0 = Some (r, p1)"
    and "t = companion_teardown_timeout self"
  shows
   "(\<forall>rc. returncode p1 = Some rc \<longrightarrow>
      start_companion_command rt self arguments body
        = Some (r, Some (p1\<lparr>events := events p1 @ [Log lg (Process_has_exited_with rc)]\<rparr>)))
   \<and> (returncode p1 = None \<longrightarrow>
        (\<forall>rc. wait_for (on_wait (child p1)) t = Inr rc \<longrightarrow>
           start_companion_command rt self arguments body
             = Some (r,
                Some (p1\<lparr>returncode := Some rc,
                  events := events p1
                    @ [Log lg (Stopping_process_with_SIGTERM_waiting t), SIGTERM,
                       Log lg (Process_has_exited_after_SIGTERM_with rc)]\<rparr>)))
        \<and> (wait_for (on_wait (child p1)) t = Inl AsyncioTimeoutError
              \<and> timeout_error_is_builtin rt \<longrightarrow>
           start_companion_command rt self arguments body
             = Some (r,
                Some (p1\<lparr>events := events p1
                    @ [Log lg (Stopping_process_with_SIGTERM_waiting t), SIGTERM,
                       Log lg (Process_hasnt_exited_SIGKILLing t), SIGKILL]\<rparr>)))
        \<and> (wait_for (on_wait (child p1)) t = Inl AsyncioTimeoutError
              \<and> \<not> timeout_error_is_builtin rt \<longrightarrow>
           start_companion_command rt self arguments body
             = Some (Inl AsyncioTimeoutError,
                Some (p1\<lparr>events := events p1
                    @ [Log lg (Stopping_process_with_SIGTERM_waiting t), SIGTERM]\<rparr>)))
        \<and> (wait_for (on_wait (child p1)) t = Inl CancelledError \<longrightarrow>
           start_companion_command rt self arguments body
             = Some (Inl CancelledError,
                Some (p1\<lparr>events := events p1
                    @ [Log lg (Stopping_process_with_SIGTERM_waiting t), SIGTERM]\<rparr>))))"
proof -
  have p0: "p0 = info lg Launched_process \<lparr>child = c, returncode = None, events = []\<rparr>"
    by (simp add: assms(4) info_def)
  have run: "start_companion_command rt self arguments body
               = Some (case fst (terminate_process rt p1 t lg) of
                         Inl e \<Rightarrow> Inl e | Inr u \<Rightarrow> r,
                       Some (snd (terminate_process rt p1 t lg)))"
    unfolding assms(6)
    by (rule start_companion_command_ended [where ?p0.0 = p0 and path = path and c = c])
       (fact assms(1) assms(2) assms(3) p0 assms(5))+
  show ?thesis
    unfolding run using terminate_process_outcomes [of p1 rt t lg] by auto
qed

text \<open>
  Claim C2. After a successful spawn, one terminal teardown happens on every exit path
  (normal completion, raised error, cancellation) before the caller sees the success
  value or the failure: no double teardown and no leaked handle.

  The \<open>finally\<close> clause calls \<open>_terminate_process\<close> once on every path
  (\<open>start_companion_command_outcomes\<close>), but with the handler of line 48 that call is
  not terminal on Python 3.6 to 3.10. Evaluated on a child that ignores SIGTERM, with a
  block that completes normally with the value 7: the caller sees \<open>asyncio.TimeoutError\<close>
  in place of 7, and the process it is handed back has no return code and has been sent
  SIGTERM only. The child is still running and nothing holds on to it.
\<close>

theorem start_companion_command_leaks_before_py311:
  "start_companion_command (example_runtime False stuck_child) example_companion
       [ascii ''--boot'', ascii ''ABC''] (\<lambda>process. Some (Inr (7 :: nat), process))
     = Some (Inl AsyncioTimeoutError,
             Some \<lparr>child = stuck_child, returncode = None,
                   events =
                     [Log (GetChild (GetLogger (ascii ''idb'')) 4242 (ascii ''--boot ABC''))
                        Launched_process,
                      Log (GetChild (GetLogger (ascii ''idb'')) 4242 (ascii ''--boot ABC''))
                        (Stopping_process_with_SIGTERM_waiting 30),
                      SIGTERM]\<rparr>)"
proof -
  let ?lg = "GetChild (GetLogger (ascii ''idb'')) 4242 (ascii ''--boot ABC'')"
  let ?p0 = "\<lparr>child = stuck_child, returncode = None, events = [Log ?lg Launched_process]\<rparr>"
  have lg: "?lg = GetChild (logger example_companion) (pid stuck_child)
                    (join (ascii '' '') [ascii ''--boot'', ascii ''ABC''])"
    by (simp add: example_companion_def Companion_init_def stuck_child_def ascii_def)
  have w: "wait_for (on_wait (child ?p0)) 30 = Inl AsyncioTimeoutError
           \<and> \<not> timeout_error_is_builtin (example_runtime False stuck_child)"
    by (simp add: wait_for_def stuck_child_def example_runtime_def)
  have t: "(30::int) = companion_teardown_timeout example_companion"
    by (simp add: example_spawn)
  have n: "returncode ?p0 = None" by simp
  from start_companion_command_outcomes
         [where body = "\<lambda>process. Some (Inr (7 :: nat), process)" and r = "Inr 7"
            and ?p1.0 = ?p0 and ?p0.0 = ?p0 and lg = ?lg and t = 30,
          OF example_spawn(1) example_spawn(2) lg refl refl t,
          THEN conjunct2, THEN mp, OF n, THEN conjunct2, THEN conjunct2, THEN conjunct1,
          THEN mp, OF w]
  show ?thesis by simp
qed

subsection \<open>Parsing one line\<close>

text \<open>
  UTF-8 decoding reads one code point of one to four bytes at a time. The first byte
  fixes the number of bytes, and the ranges of the continuation bytes leave every code
  point exactly one encoding.
\<close>

lemma utf8_decode_ConsE:
  assumes "utf8_decode (x # xs) = Some t"
  obtains
    (one) t' where "unat x < 128" "t = unat x # t'" "utf8_decode xs = Some t'"
  | (two) c1 r t' where "xs = c1 # r" "194 \<le> unat x" "unat x \<le> 223"
      "128 \<le> unat c1" "unat c1 \<le> 191"
      "t = ((unat x - 192) * 64 + (unat c1 - 128)) # t'" "utf8_decode r = Some t'"
  | (three) c1 c2 r t' where "xs = c1 # c2 # r" "224 \<le> unat x" "unat x \<le> 239"
      "(if unat x = 224 then 160 else 128) \<le> unat c1"
      "unat c1 \<le> (if unat x = 237 then 159 else 191)"
      "128 \<le> unat c2" "unat c2 \<le> 191"
      "t = ((unat x - 224) * 4096 + (unat c1 - 128) * 64 + (unat c2 - 128)) # t'"
      "utf8_decode r = Some t'"
  | (four) c1 c2 c3 r t' where "xs = c1 # c2 # c3 # r" "240 \<le> unat x" "unat x \<le> 244"
      "(if unat x = 240 then 144 else 128) \<le> unat c1"
      "unat c1 \<le> (if unat x = 244 then 143 else 191)"
      "128 \<le> unat c2" "unat c2 \<le> 191" "128 \<le> unat c3" "unat c3 \<le> 191"
      "t = ((unat x - 240) * 262144 + (unat c1 - 128) * 4096 + (unat c2 - 128) * 64
            + (unat c3 - 128)) # t'"
      "utf8_decode r = Some t'"
proof -
  have eq: "(x = w) = (unat x = unat w)" for w :: "8 word"
    by (rule word_unat_eq_iff)
  consider "x < 0x80" | "\<not> x < 0x80" "0xC2 \<le> x \<and> x \<le> 0xDF"
    | "\<not> x < 0x80" "\<not> (0xC2 \<le> x \<and> x \<le> 0xDF)" "0xE0 \<le> x \<and> x \<le> 0xEF"
    | "\<not> x < 0x80" "\<not> (0xC2 \<le> x \<and> x \<le> 0xDF)" "\<not> (0xE0 \<le> x \<and> x \<le> 0xEF)"
    by blast
  then show thesis
  proof cases
    case 1
    with assms one show ?thesis
      by (auto simp add: word_less_nat_alt)
  next
    case 2
    with assms two show ?thesis
      by (auto simp add: is_cont_def cont_bits_def word_less_nat_alt word_le_nat_alt
            split: list.splits if_splits)
  next
    case 3
    with assms three [where ?c1.0 = "hd xs" and ?c2.0 = "hd (tl xs)" and r = "tl (tl xs)"]
    show ?thesis
      by (auto simp add: is_cont_def cont_bits_def word_less_nat_alt word_le_nat_alt eq
            split: list.splits if_splits)
  next
    case 4
    with assms
      four [where ?c1.0 = "hd xs" and ?c2.0 = "hd (tl xs)" and ?c3.0 = "hd (tl (tl xs))"
              and r = "tl (tl (tl xs))"]
    show ?thesis
      by (auto simp add: is_cont_def cont_bits_def word_less_nat_alt word_le_nat_alt eq
            split: list.splits if_splits)
  qed
qed

lemma utf8_decode_Cons_cases:
  assumes "utf8_decode (x # xs) = Some t"
  obtains
    (one) t' where "unat x < 128" "t = unat x # t'" "utf8_decode xs = Some t'"
  | (two) c1 r t' h k1 where "xs = c1 # r" "unat x = 192 + h" "2 \<le> h" "h \<le> 31"
      "unat c1 = 128 + k1" "k1 \<le> 63"
      "t = (h * 64 + k1) # t'" "utf8_decode r = Some t'"
  | (three) c1 c2 r t' h k1 k2 where "xs = c1 # c2 # r" "unat x = 224 + h" "h \<le> 15"
      "unat c1 = 128 + k1" "k1 \<le> 63" "unat c2 = 128 + k2" "k2 \<le> 63"
      "2048 \<le> h * 4096 + k1 * 64 + k2"
      "t = (h * 4096 + k1 * 64 + k2) # t'" "utf8_decode r = Some t'"
  | (four) c1 c2 c3 r t' h k1 k2 k3 where "xs = c1 # c2 # c3 # r" "unat x = 240 + h" "h \<le> 4"
      "unat c1 = 128 + k1" "k1 \<le> 63" "unat c2 = 128 + k2" "k2 \<le> 63"
      "unat c3 = 128 + k3" "k3 \<le> 63"
      "65536 \<le> h * 262144 + k1 * 4096 + k2 * 64 + k3"
      "t = (h * 262144 + k1 * 4096 + k2 * 64 + k3) # t'" "utf8_decode r = Some t'"
  using assms
proof (cases rule: utf8_decode_ConsE)
  case (one t')
  then show ?thesis by (rule that(1))
next
  case (two c1 r t')
  show ?thesis
  proof (rule that(2) [where h = "unat x - 192" and ?k1.0 = "unat c1 - 128"])
    show "xs = c1 # r" by fact
    show "utf8_decode r = Some t'" by fact
    show "t = ((unat x - 192) * 64 + (unat c1 - 128)) # t'" by fact
  qed (use two in simp_all)
next
  case (three c1 c2 r t')
  have k1: "128 \<le> unat c1" "unat c1 \<le> 191"
    using three(4,5) by (simp_all split: if_splits)
  have lo: "unat x = 224 \<Longrightarrow> 160 \<le> unat c1"
    using three(4) by simp
  show ?thesis
  proof (rule that(3) [where h = "unat x - 224" and ?k1.0 = "unat c1 - 128"
                         and ?k2.0 = "unat c2 - 128"])
    show "xs = c1 # c2 # r" by fact
    show "utf8_decode r = Some t'" by fact
    show "t = ((unat x - 224) * 4096 + (unat c1 - 128) * 64 + (unat c2 - 128)) # t'" by fact
    show "2048 \<le> (unat x - 224) * 4096 + (unat c1 - 128) * 64 + (unat c2 - 128)"
    proof (cases "unat x = 224")
      case True
      with lo show ?thesis by simp
    next
      case False
      with three(2) have "1 \<le> unat x - 224" by simp
      then have "4096 \<le> (unat x - 224) * 4096" by simp
      then show ?thesis by simp
    qed
  qed (use three(2,3,6,7) k1 in simp_all)
next
  case (four c1 c2 c3 r t')
  have k1: "128 \<le> unat c1" "unat c1 \<le> 191"
    using four(4,5) by (simp_all split: if_splits)
  have lo: "unat x = 240 \<Longrightarrow> 144 \<le> unat c1"
    using four(4) by simp
  show ?thesis
  proof (rule that(4) [where h = "unat x - 240" and ?k1.0 = "unat c1 - 128"
                         and ?k2.0 = "unat c2 - 128" and ?k3.0 = "unat c3 - 128"])
    show "xs = c1 # c2 # c3 # r" by fact
    show "utf8_decode r = Some t'" by fact
    show "t = ((unat x - 240) * 262144 + (unat c1 - 128) * 4096 + (unat c2 - 128) * 64
               + (unat c3 - 128)) # t'" by fact
    show "65536 \<le> (unat x - 240) * 262144 + (unat c1 - 128) * 4096 + (unat c2 - 128) * 64
                   + (unat c3 - 128)"
    proof (cases "unat x = 240")
      case True
      with lo have "16 \<le> unat c1 - 128" by simp
      then have "65536 \<le> (unat c1 - 128) * 4096" by simp
      then show ?thesis by simp
    next
      case False
      with four(2) have "1 \<le> unat x - 240" by simp
      then have "262144 \<le> (unat x - 240) * 262144" by simp
      then show ?thesis by simp
    qed
  qed (use four(2,3,6-9) k1 in simp_all)
qed

lemma utf8_decode_Nil_iff: "utf8_decode bs = Some [] \<longleftrightarrow> bs = []"
proof
  assume a: "utf8_decode bs = Some []"
  show "bs = []"
  proof (cases bs)
    case Nil
    then show ?thesis .
  next
    case (Cons x xs)
    with a have "utf8_decode (x # xs) = Some []" by simp
    then show ?thesis by (rule utf8_decode_ConsE) simp_all
  qed
qed simp

lemma unat_eqD: "unat (x :: 8 word) = unat y \<Longrightarrow> x = y"
  by (simp add: word_unat_eq_iff)

text \<open>Two byte strings that decode to the same text are the same.\<close>

lemma utf8_decode_inj:
  "utf8_decode a = Some t \<Longrightarrow> utf8_decode b = Some t \<Longrightarrow> a = b"
proof (induction "length a" arbitrary: a b t rule: less_induct)
  case less
  show ?case
  proof (cases a)
    case Nil
    with less.prems have "t = []" by simp
    with less.prems Nil show ?thesis by (simp add: utf8_decode_Nil_iff)
  next
    case (Cons x xs)
    with less.prems have t: "t \<noteq> []"
      using utf8_decode_Nil_iff [of a] by auto
    then obtain y ys where b: "b = y # ys"
      using less.prems(2) by (cases b) auto
    have da: "utf8_decode (x # xs) = Some t" using less.prems(1) Cons by simp
    have db: "utf8_decode (y # ys) = Some t" using less.prems(2) b by simp
    have ih: "utf8_decode r = Some u \<Longrightarrow> utf8_decode r' = Some u \<Longrightarrow> length r < length a
              \<Longrightarrow> r = r'" for r r' u
      using less.hyps by blast
    from da show ?thesis
    proof (cases rule: utf8_decode_Cons_cases)
      case A: (one ta)
      from db show ?thesis
      proof (cases rule: utf8_decode_Cons_cases)
        case B: (one tb)
        have "unat x = unat y" "ta = tb" using A B by simp_all
        moreover have "xs = ys"
          using ih [of xs ta ys] A B Cons \<open>ta = tb\<close> by simp
        ultimately show ?thesis using Cons b by (simp add: unat_eqD)
      next
        case B: (two b1 rb tb h k1)
        have "unat x = h * 64 + k1" using A B by simp
        with A(1) B(3) show ?thesis by simp
      next
        case B: (three b1 b2 rb tb h k1 k2)
        have "unat x = h * 4096 + k1 * 64 + k2" using A B by simp
        with A(1) B(8) show ?thesis by simp
      next
        case B: (four b1 b2 b3 rb tb h k1 k2 k3)
        have "unat x = h * 262144 + k1 * 4096 + k2 * 64 + k3" using A B by simp
        with A(1) B(10) show ?thesis by simp
      qed
    next
      case A: (two a1 ra ta g j1)
      from db show ?thesis
      proof (cases rule: utf8_decode_Cons_cases)
        case B: (one tb)
        have "g * 64 + j1 = unat y" using A B by simp
        with A(3) B(1) show ?thesis by simp
      next
        case B: (two b1 rb tb h k1)
        have e: "g * 64 + j1 = h * 64 + k1" "ta = tb"
          using A B by simp_all
        have g: "g = h" using e(1) A(6) B(6) by arith
        have j1: "j1 = k1" using e(1) g by simp
        have "ra = rb"
          using ih [of ra ta rb] A B Cons e(2) by simp
        moreover have "unat x = unat y" "unat a1 = unat b1"
          using A B g j1 by simp_all
        ultimately show ?thesis using Cons b A(1) B(1) by (simp add: unat_eqD)
      next
        case B: (three b1 b2 rb tb h k1 k2)
        have "g * 64 + j1 = h * 4096 + k1 * 64 + k2" using A B by simp
        with A(4,6) B(8) show ?thesis by simp
      next
        case B: (four b1 b2 b3 rb tb h k1 k2 k3)
        have "g * 64 + j1 = h * 262144 + k1 * 4096 + k2 * 64 + k3" using A B by simp
        with A(4,6) B(10) show ?thesis by simp
      qed
    next
      case A: (three a1 a2 ra ta g j1 j2)
      from db show ?thesis
      proof (cases rule: utf8_decode_Cons_cases)
        case B: (one tb)
        have "g * 4096 + j1 * 64 + j2 = unat y" using A B by simp
        with A(8) B(1) show ?thesis by simp
      next
        case B: (two b1 rb tb h k1)
        have "g * 4096 + j1 * 64 + j2 = h * 64 + k1" using A B by simp
        with A(8) B(4,6) show ?thesis by simp
      next
        case B: (three b1 b2 rb tb h k1 k2)
        have e: "g * 4096 + j1 * 64 + j2 = h * 4096 + k1 * 64 + k2" "ta = tb"
          using A B by simp_all
        have g: "g = h" using e(1) A(5,7) B(5,7) by arith
        have j1: "j1 = k1" using e(1) g A(7) B(7) by arith
        have j2: "j2 = k2" using e(1) g j1 by simp
        have "ra = rb"
          using ih [of ra ta rb] A B Cons e(2) by simp
        moreover have "unat x = unat y" "unat a1 = unat b1" "unat a2 = unat b2"
          using A B g j1 j2 by simp_all
        ultimately show ?thesis using Cons b A(1) B(1) by (simp add: unat_eqD)
      next
        case B: (four b1 b2 b3 rb tb h k1 k2 k3)
        have "g * 4096 + j1 * 64 + j2 = h * 262144 + k1 * 4096 + k2 * 64 + k3"
          using A B by simp
        with A(3,5,7) B(10) show ?thesis by simp
      qed
    next
      case A: (four a1 a2 a3 ra ta g j1 j2 j3)
      from db show ?thesis
      proof (cases rule: utf8_decode_Cons_cases)
        case B: (one tb)
        have "g * 262144 + j1 * 4096 + j2 * 64 + j3 = unat y" using A B by simp
        with A(10) B(1) show ?thesis by simp
      next
        case B: (two b1 rb tb h k1)
        have "g * 262144 + j1 * 4096 + j2 * 64 + j3 = h * 64 + k1" using A B by simp
        with A(10) B(4,6) show ?thesis by simp
      next
        case B: (three b1 b2 rb tb h k1 k2)
        have "g * 262144 + j1 * 4096 + j2 * 64 + j3 = h * 4096 + k1 * 64 + k2"
          using A B by simp
        with A(10) B(3,5,7) show ?thesis by simp
      next
        case B: (four b1 b2 b3 rb tb h k1 k2 k3)
        have e: "g * 262144 + j1 * 4096 + j2 * 64 + j3
                   = h * 262144 + k1 * 4096 + k2 * 64 + k3" "ta = tb"
          using A B by simp_all
        have g: "g = h" using e(1) A(5,7,9) B(5,7,9) by arith
        have j1: "j1 = k1" using e(1) g A(7,9) B(7,9) by arith
        have j2: "j2 = k2" using e(1) g j1 A(9) B(9) by arith
        have j3: "j3 = k3" using e(1) g j1 j2 by simp
        have "ra = rb"
          using ih [of ra ta rb] A B Cons e(2) by simp
        moreover have "unat x = unat y" "unat a1 = unat b1" "unat a2 = unat b2"
            "unat a3 = unat b3"
          using A B g j1 j2 j3 by simp_all
        ultimately show ?thesis using Cons b A(1) B(1) by (simp add: unat_eqD)
      qed
    qed
  qed
qed

text \<open>A line of opening brackets decodes to itself.\<close>

lemma utf8_decode_replicate_bracket:
  "utf8_decode (replicate n 0x5B) = Some (replicate n 0x5B)"
  by (induction n) simp_all

text \<open>
  Claim C9, as the code has it. \<open>parse_json_line\<close> decodes the line as UTF-8 and gives
  the text to \<open>json.loads\<close>. A line that is no UTF-8 raises \<open>UnicodeDecodeError\<close>: the
  decoding stands before the \<open>try\<close>. A \<open>json.JSONDecodeError\<close> becomes an
  \<open>IdbJsonException\<close> that carries the decoded text, and no other line of bytes decodes
  to that text, so the exception determines the raw line. Every other exception of
  \<open>json.loads\<close> (a \<open>RecursionError\<close> on deeply nested input) leaves the function as it
  is. Otherwise the value of \<open>json.loads\<close> is returned, whatever JSON value it is, and
  nothing else is ever returned: no line is dropped and no default is put in its place.
\<close>

theorem parse_json_line_outcomes:
  "(utf8_decode line = None \<longrightarrow> parse_json_line rt line = Inl UnicodeDecodeError)
   \<and> (\<forall>decoded. utf8_decode line = Some decoded \<longrightarrow>
          (json_loads rt decoded = Inl JSONDecodeError \<longrightarrow>
             parse_json_line rt line = Inl (IdbJsonException decoded)
             \<and> (\<forall>line'. utf8_decode line' = Some decoded \<longrightarrow> line' = line))
          \<and> (\<forall>e. json_loads rt decoded = Inl e \<and> e \<noteq> JSONDecodeError \<longrightarrow>
                 parse_json_line rt line = Inl e)
          \<and> (\<forall>v. json_loads rt decoded = Inr v \<longrightarrow> parse_json_line rt line = Inr v))
   \<and> (\<forall>v. parse_json_line rt line = Inr v \<longrightarrow>
          (\<exists>decoded. utf8_decode line = Some decoded \<and> json_loads rt decoded = Inr v))"
proof (intro conjI allI impI)
  assume "utf8_decode line = None"
  then show "parse_json_line rt line = Inl UnicodeDecodeError"
    by (simp add: parse_json_line_def)
next
  fix decoded
  assume "utf8_decode line = Some decoded" "json_loads rt decoded = Inl JSONDecodeError"
  then show "parse_json_line rt line = Inl (IdbJsonException decoded)"
    by (simp add: parse_json_line_def)
next
  fix decoded line'
  assume "utf8_decode line = Some decoded" "utf8_decode line' = Some decoded"
  then show "line' = line"
    by (rule utf8_decode_inj [of line' decoded line, rotated])
next
  fix decoded e
  assume "utf8_decode line = Some decoded" "json_loads rt decoded = Inl e \<and> e \<noteq> JSONDecodeError"
  then show "parse_json_line rt line = Inl e"
    by (simp add: parse_json_line_def)
next
  fix decoded v
  assume "utf8_decode line = Some decoded" "json_loads rt decoded = Inr v"
  then show "parse_json_line rt line = Inr v"
    by (simp add: parse_json_line_def)
next
  fix v
  assume "parse_json_line rt line = Inr v"
  then show "\<exists>decoded. utf8_decode line = Some decoded \<and> json_loads rt decoded = Inr v"
    by (auto simp add: parse_json_line_def split: option.splits sum.splits if_splits)
qed

theorem parse_json_line_outcomes_witness:
  \<open>parse_json_line (example_runtime True stuck_child) [0xFF] = Inl UnicodeDecodeError
   \<and> parse_json_line (example_runtime True stuck_child) (ascii_bytes ''progress: 50%'' @ [0x0A])
       = Inl (IdbJsonException (ascii ''progress: 50%'' @ [0x0A]))
   \<and> parse_json_line (example_runtime True stuck_child) (replicate 1000 0x5B)
       = Inl RecursionError
   \<and> parse_json_line (example_runtime True stuck_child) (ascii_bytes ''{"pid": 7}'' @ [0x0A])
       = Inr (JDict [(ascii ''pid'', JInt 7)])
   \<and> (\<exists>decoded. utf8_decode (ascii_bytes ''{"pid": 7}'' @ [0x0A]) = Some decoded
          \<and> json_loads (example_runtime True stuck_child) decoded
              = Inr (JDict [(ascii ''pid'', JInt 7)]))\<close>
proof -
  let ?rt = "example_runtime True stuck_child"
  have d1: "utf8_decode [0xFF] = None" by simp
  have d2: "utf8_decode (ascii_bytes ''progress: 50%'' @ [0x0A])
              = Some (ascii ''progress: 50%'' @ [0x0A])"
    by (simp add: ascii_bytes_def ascii_def)
  have d3: \<open>utf8_decode (ascii_bytes ''{"pid": 7}'' @ [0x0A])
              = Some (ascii ''{"pid": 7}'' @ [0x0A])\<close>
    by (simp add: ascii_bytes_def ascii_def)
  have d4: "utf8_decode (replicate 1000 0x5B) = Some (replicate 1000 0x5B)"
    by (rule utf8_decode_replicate_bracket)
  have j2: "json_loads ?rt (ascii ''progress: 50%'' @ [0x0A]) = Inl JSONDecodeError"
    by (simp add: example_runtime_def example_json_loads_def ascii_def)
  have j3: \<open>json_loads ?rt (ascii ''{"pid": 7}'' @ [0x0A])
              = Inr (JDict [(ascii ''pid'', JInt 7)])\<close>
    by (simp add: example_runtime_def example_json_loads_def ascii_def)
  have j4: "json_loads ?rt (replicate 1000 0x5B) = Inl RecursionError
            \<and> RecursionError \<noteq> JSONDecodeError"
    by (simp add: example_runtime_def example_json_loads_def)
  note a = parse_json_line_outcomes [of "[0xFF]" ?rt, THEN conjunct1, THEN mp, OF d1]
  note b = parse_json_line_outcomes
             [of "ascii_bytes ''progress: 50%'' @ [0x0A]" ?rt, THEN conjunct2, THEN conjunct1,
              THEN spec, THEN mp, OF d2, THEN conjunct1, THEN mp, OF j2, THEN conjunct1]
  note c = parse_json_line_outcomes
             [of "replicate 1000 0x5B" ?rt, THEN conjunct2, THEN conjunct1,
              THEN spec, THEN mp, OF d4, THEN conjunct2, THEN conjunct1, THEN spec,
              THEN mp, OF j4]
  note d = parse_json_line_outcomes
             [of \<open>ascii_bytes ''{"pid": 7}'' @ [0x0A]\<close> ?rt, THEN conjunct2, THEN conjunct1,
              THEN spec, THEN mp, OF d3, THEN conjunct2, THEN conjunct2, THEN spec,
              THEN mp, OF j3]
  note e = parse_json_line_outcomes
             [of \<open>ascii_bytes ''{"pid": 7}'' @ [0x0A]\<close> ?rt, THEN conjunct2, THEN conjunct2,
              THEN spec, THEN mp, OF d]
  from a b c d e show ?thesis by (intro conjI)
qed

text \<open>
  The claim as the spec states it has one failure for both causes, carrying the raw
  line. On the line that is the single byte \<open>0xFF\<close> the function fails with
  \<open>UnicodeDecodeError\<close>, which is not the \<open>IdbJsonException\<close> and carries no line.
\<close>

theorem parse_json_line_decode_failure_counterexample:
  "parse_json_line (example_runtime True stuck_child) [0xFF] = Inl UnicodeDecodeError"
  by (simp add: parse_json_line_def)

subsection \<open>The handshake of the domain-socket server\<close>











subsection \<open>The timeout argument\<close>

text \<open>
  Claim C10, as the code has it. A timeout argument of zero behaves as no timeout
  argument in \<open>_run_companion_command\<close> and in each of the eight operations that take
  one: \<open>timeout or self._companion_command_timeout\<close> falls back on every falsy value. The
  timeout that then applies is the command timeout the companion was built with, which
  is 120 seconds only when the constructor was given none. That timeout bounds the wait:
  a process that finishes before it gives the outcome of its exit code and output, and
  a process that does not finish before it gives, once torn down, the timed-out failure
  that names the configured timeout.
\<close>

theorem zero_timeout_takes_configured_default:
  "run_companion_command rt self arguments (Some 0) = run_companion_command rt self arguments None
   \<and> create rt self device_type os_version' (Some 0) = create rt self device_type os_version' None
   \<and> clone rt self udid' destination (Some 0) = clone rt self udid' destination None
   \<and> list_targets rt self only (Some 0) = list_targets rt self only None
   \<and> target_description rt self udid_opt only (Some 0) = target_description rt self udid_opt only None
   \<and> boot rt self udid' (Some 0) = boot rt self udid' None
   \<and> shutdown rt self udid' (Some 0) = shutdown rt self udid' None
   \<and> erase rt self udid' (Some 0) = erase rt self udid' None
   \<and> delete rt self udid_opt (Some 0) = delete rt self udid_opt None
   \<and> companion_command_timeout (Companion_init p s lg None tt) = 120
   \<and> (\<forall>path c.
         companion_path self = Some path
         \<and> create_subprocess_exec rt
             ([path] @ (case device_set_path self of None \<Rightarrow> []
                        | Some d \<Rightarrow> [ascii ''--device-set-path'', d]) @ arguments) = Inr c
         \<longrightarrow>
         (\<forall>d out rc.
            on_communicate c = Finishes d (out, rc) \<and> int d < companion_command_timeout self
            \<longrightarrow> map_option fst (run_companion_command rt self arguments (Some 0))
                  = Some (if rc \<noteq> 0 then Inl (IdbException (FailedToRun arguments))
                          else (case utf8_decode out of
                                  None \<Rightarrow> Inl UnicodeDecodeError
                                | Some decoded \<Rightarrow> Inr decoded)))
         \<and> ((on_communicate c = Hangs
              \<or> (\<exists>d v. on_communicate c = Finishes d v \<and> companion_command_timeout self \<le> int d))
             \<and> ((\<exists>rc. wait_for (on_wait c) (companion_teardown_timeout self) = Inr rc)
                \<or> (timeout_error_is_builtin rt
                   \<and> wait_for (on_wait c) (companion_teardown_timeout self)
                       = Inl AsyncioTimeoutError))
            \<longrightarrow> map_option fst (run_companion_command rt self arguments (Some 0))
                  = Some (Inl (IdbException
                                 (TimedOutOnCommand (companion_command_timeout self)
                                    (join (ascii '' '') arguments))))))"
proof -
  have run: "\<And>a. run_companion_command rt self a (Some 0) = run_companion_command rt self a None"
    by (rule run_companion_command_zero)
  have T: "timeout_or (Some 0) (companion_command_timeout self) = companion_command_timeout self"
    by (simp add: timeout_or_def)
  have completed: "map_option fst (run_companion_command rt self arguments (Some 0))
                  = Some (if rc \<noteq> 0 then Inl (IdbException (FailedToRun arguments))
                          else (case utf8_decode out of
                                  None \<Rightarrow> Inl UnicodeDecodeError
                                | Some decoded \<Rightarrow> Inr decoded))"
    if "companion_path self = Some path"
      and "create_subprocess_exec rt
             ([path] @ (case device_set_path self of None \<Rightarrow> []
                        | Some d \<Rightarrow> [ascii ''--device-set-path'', d]) @ arguments) = Inr c"
      and "on_communicate c = Finishes d (out, rc) \<and> int d < companion_command_timeout self"
    for path c d out rc
  proof -
    have "wait_for (on_communicate c) (timeout_or (Some 0) (companion_command_timeout self))
            = Inr (out, rc)"
      using that(3) by (simp add: wait_for_def T)
    from run_companion_command_completed [OF that(1) that(2) this]
    show ?thesis by auto
  qed
  have late: "map_option fst (run_companion_command rt self arguments (Some 0))
                  = Some (Inl (IdbException
                                 (TimedOutOnCommand (companion_command_timeout self)
                                    (join (ascii '' '') arguments))))"
    if "companion_path self = Some path"
      and "create_subprocess_exec rt
             ([path] @ (case device_set_path self of None \<Rightarrow> []
                        | Some d \<Rightarrow> [ascii ''--device-set-path'', d]) @ arguments) = Inr c"
      and "(on_communicate c = Hangs
              \<or> (\<exists>d v. on_communicate c = Finishes d v \<and> companion_command_timeout self \<le> int d))
             \<and> ((\<exists>rc. wait_for (on_wait c) (companion_teardown_timeout self) = Inr rc)
                \<or> (timeout_error_is_builtin rt
                   \<and> wait_for (on_wait c) (companion_teardown_timeout self)
                       = Inl AsyncioTimeoutError))"
    for path c
  proof -
    have w: "wait_for (on_communicate c) (timeout_or (Some 0) (companion_command_timeout self))
            = Inl AsyncioTimeoutError"
      using that(3) by (auto simp add: wait_for_def T)
    from run_companion_command_timed_out [OF that(1) that(2) w] that(3)
    show ?thesis by (simp add: T)
  qed
  have eqs: "create rt self device_type os_version' (Some 0) = create rt self device_type os_version' None
   \<and> clone rt self udid' destination (Some 0) = clone rt self udid' destination None
   \<and> list_targets rt self only (Some 0) = list_targets rt self only None
   \<and> target_description rt self udid_opt only (Some 0) = target_description rt self udid_opt only None
   \<and> boot rt self udid' (Some 0) = boot rt self udid' None
   \<and> shutdown rt self udid' (Some 0) = shutdown rt self udid' None
   \<and> erase rt self udid' (Some 0) = erase rt self udid' None
   \<and> delete rt self udid_opt (Some 0) = delete rt self udid_opt None
   \<and> companion_command_timeout (Companion_init p s lg None tt) = 120"
    by (simp add: run create_def clone_def list_targets_def target_description_def boot_def
          shutdown_def erase_def delete_def run_udid_command_def
          Companion_init_def DEFAULT_COMPANION_COMMAND_TIMEOUT_def)
  from run [of arguments] eqs completed late show ?thesis
    by (intro conjI allI impI) (blast | (elim conjE, assumption))+
qed

theorem zero_timeout_takes_configured_default_witness:
  "map_option fst
     (run_companion_command (example_runtime True (exiting_child (ascii_bytes ''ok'') 0))
        example_companion [ascii ''--boot'', ascii ''ABC''] (Some 0))
     = Some (Inr (ascii ''ok''))
   \<and> map_option fst
       (run_companion_command (example_runtime True stuck_child)
          example_companion [ascii ''--boot'', ascii ''ABC''] (Some 0))
       = Some (Inl (IdbException (TimedOutOnCommand 120 (ascii ''--boot ABC''))))"
proof -
  let ?args = "[ascii ''--boot'', ascii ''ABC'']"
  let ?c = "exiting_child (ascii_bytes ''ok'') 0"
  note sp = example_spawn(2) [where arguments = ?args]
  have h1: "on_communicate ?c = Finishes 1 (ascii_bytes ''ok'', 0)
            \<and> int 1 < companion_command_timeout example_companion"
    by (simp add: exiting_child_def example_spawn)
  have h2: "(on_communicate stuck_child = Hangs
              \<or> (\<exists>d v. on_communicate stuck_child = Finishes d v
                        \<and> companion_command_timeout example_companion \<le> int d))
             \<and> ((\<exists>rc. wait_for (on_wait stuck_child)
                         (companion_teardown_timeout example_companion) = Inr rc)
                \<or> (timeout_error_is_builtin (example_runtime True stuck_child)
                   \<and> wait_for (on_wait stuck_child)
                        (companion_teardown_timeout example_companion)
                       = Inl AsyncioTimeoutError))"
    by (simp add: wait_for_def stuck_child_def example_runtime_def)
  have d1: "utf8_decode (ascii_bytes ''ok'') = Some (ascii ''ok'')"
    by (simp add: text_simps)
  have j: "join (ascii '' '') ?args = ascii ''--boot ABC''"
    by (simp add: ascii_def)
  note t = zero_timeout_takes_configured_default
             [where rt = "example_runtime True ?c" and self = example_companion
                and arguments = ?args,
              THEN conjunct2, THEN conjunct2, THEN conjunct2, THEN conjunct2, THEN conjunct2,
              THEN conjunct2, THEN conjunct2, THEN conjunct2, THEN conjunct2, THEN conjunct2,
              THEN spec, THEN spec, THEN mp, OF conjI, OF example_spawn(1) sp]
  note a = t [THEN conjunct1, THEN spec, THEN spec, THEN spec, THEN mp, OF h1]
  note sp' = example_spawn(2) [where arguments = ?args and c = stuck_child and b = True]
  note t' = zero_timeout_takes_configured_default
             [where rt = "example_runtime True stuck_child" and self = example_companion
                and arguments = ?args,
              THEN conjunct2, THEN conjunct2, THEN conjunct2, THEN conjunct2, THEN conjunct2,
              THEN conjunct2, THEN conjunct2, THEN conjunct2, THEN conjunct2, THEN conjunct2,
              THEN spec, THEN spec, THEN mp, OF conjI, OF example_spawn(1) sp']
  note b = t' [THEN conjunct2, THEN mp, OF h2]
  from a b d1 j show ?thesis
    by (simp add: example_spawn)
qed

text \<open>
  The claim as the spec states it applies 120 seconds and never times out at once. With
  a companion built with a command timeout of zero, a timeout argument of zero (and
  likewise none) times out at once, on a process that would have exited with code zero
  after one second.
\<close>

theorem zero_timeout_configured_zero_counterexample:
  "companion_command_timeout
     (Companion_init (Some (ascii ''/usr/local/bin/idb_companion'')) None
        (GetLogger (ascii ''idb'')) (Some 0) None) = 0
   \<and> map_option fst
       (run_companion_command (example_runtime True (exiting_child (ascii_bytes ''ok'') 0))
          (Companion_init (Some (ascii ''/usr/local/bin/idb_companion'')) None
             (GetLogger (ascii ''idb'')) (Some 0) None)
          [ascii ''--boot'', ascii ''ABC''] (Some 0))
       = Some (Inl (IdbException (TimedOutOnCommand 0 (ascii ''--boot ABC''))))
   \<and> map_option fst
       (run_companion_command (example_runtime True (exiting_child (ascii_bytes ''ok'') 0))
          (Companion_init (Some (ascii ''/usr/local/bin/idb_companion'')) None
             (GetLogger (ascii ''idb'')) (Some 0) None)
          [ascii ''--boot'', ascii ''ABC''] None)
       = Some (Inl (IdbException (TimedOutOnCommand 0 (ascii ''--boot ABC''))))"
proof -
  let ?args = "[ascii ''--boot'', ascii ''ABC'']"
  let ?c = "exiting_child (ascii_bytes ''ok'') 0"
  let ?self = "Companion_init (Some (ascii ''/usr/local/bin/idb_companion'')) None
                 (GetLogger (ascii ''idb'')) (Some 0) None"
  have s: "companion_path ?self = Some (ascii ''/usr/local/bin/idb_companion'')"
    "companion_command_timeout ?self = 0"
    "companion_teardown_timeout ?self = 30"
    "device_set_path ?self = None"
    by (simp_all add: Companion_init_def DEFAULT_COMPANION_TEARDOWN_TIMEOUT_def)
  have sp: "create_subprocess_exec (example_runtime True ?c)
              ([ascii ''/usr/local/bin/idb_companion'']
               @ (case device_set_path ?self of None \<Rightarrow> []
                  | Some d \<Rightarrow> [ascii ''--device-set-path'', d]) @ ?args) = Inr ?c"
    by (simp add: example_runtime_def)
  have w: "wait_for (on_communicate ?c) (timeout_or timeout (companion_command_timeout ?self))
             = Inl AsyncioTimeoutError" if "timeout = Some 0 \<or> timeout = None" for timeout
    using that by (auto simp add: s(2) timeout_or_def wait_for_def exiting_child_def)
  have td: "(\<exists>rc. wait_for (on_wait ?c) (companion_teardown_timeout ?self) = Inr rc)
         \<or> (timeout_error_is_builtin (example_runtime True ?c)
            \<and> wait_for (on_wait ?c) (companion_teardown_timeout ?self) = Inl AsyncioTimeoutError)"
    by (simp add: s(3) wait_for_def exiting_child_def)
  have j: "join (ascii '' '') ?args = ascii ''--boot ABC''"
    by (simp add: ascii_def)
  have T: "timeout_or (Some 0) (companion_command_timeout ?self) = 0"
    "timeout_or None (companion_command_timeout ?self) = 0"
    by (simp_all add: s(2) timeout_or_def)
  note a = run_companion_command_timed_out [OF s(1) sp w td, of "Some 0", simplified T j]
  note b = run_companion_command_timed_out [OF s(1) sp w td, of None, simplified T j]
  from a b s(2) show ?thesis by simp
qed

end
